theory Spec2Isabelle
  imports Main "HOL-Library.Sublist"
begin

section \<open>Values exchanged with the chat platform\<close>

text \<open>
  The plugin (\<^verbatim>\<open>cabot_alert_slack/models.py\<close>) talks to Slack through the
  \<^verbatim>\<open>requests\<close> library and reads the answers with \<^verbatim>\<open>response.json()\<close>.
  A parsed JSON document is a value of \<open>jvalue\<close>; Python's \<^verbatim>\<open>None\<close> is \<open>JNull\<close>
  (what \<^verbatim>\<open>json.loads\<close> yields for \<^verbatim>\<open>null\<close>, and what \<^verbatim>\<open>dict.get\<close> yields for a
  missing key). Numbers are kept as integers: the code only ever tests them for
  truthiness. A \<open>JObj\<close> is the parsed dict as an association list with
  pairwise distinct keys, in the order in which the dict is iterated.
\<close>

datatype jvalue =
    JNull
  | JBool bool
  | JNum int
  | JStr string
  | JArr "jvalue list"
  | JObj "(string \<times> jvalue) list"

text \<open>
  The exceptions the code can raise. \<open>HTTPError\<close> is \<^verbatim>\<open>requests.HTTPError\<close> with its
  message; \<open>SlackAPIError\<close> is the class of lines 34-44 with its two attributes
  \<^verbatim>\<open>error_type\<close> and \<^verbatim>\<open>errors\<close>. The others are the Python built-ins that the
  source's own subscripts, attribute reads and \<^verbatim>\<open>raise\<close> statements produce.
\<close>

datatype error =
    HTTPError string
  | SlackAPIError jvalue jvalue
  | RuntimeError string
  | ValueError
  | KeyError string
  | AttributeError string
  | TypeError

text \<open>The exceptions named by the \<^verbatim>\<open>except (requests.HTTPError, SlackAPIError)\<close> clauses.\<close>

fun is_http_error :: "error \<Rightarrow> bool" where
  "is_http_error (HTTPError m) = True"
| "is_http_error e = False"

fun is_slack_api_error :: "error \<Rightarrow> bool" where
  "is_slack_api_error (SlackAPIError t es) = True"
| "is_slack_api_error e = False"

definition caught :: "error \<Rightarrow> bool" where
  "caught e = (is_http_error e \<or> is_slack_api_error e)"

text \<open>
  Reading the attribute \<^verbatim>\<open>e.error_type\<close>: only a \<open>SlackAPIError\<close> has it
  (line 37); on any other exception object Python raises \<^verbatim>\<open>AttributeError\<close>.
\<close>

fun error_type :: "error \<Rightarrow> error + jvalue" where
  "error_type (SlackAPIError t es) = Inr t"
| "error_type e = Inl (AttributeError ''error_type'')"

text \<open>Sequencing of computations that may raise.\<close>

fun ebind :: "error + 'a \<Rightarrow> ('a \<Rightarrow> error + 'b) \<Rightarrow> error + 'b" where
  "ebind (Inl e) f = Inl e"
| "ebind (Inr x) f = f x"

text \<open>Python truthiness (\<^verbatim>\<open>not v\<close>, \<^verbatim>\<open>if v:\<close>) of a parsed JSON value.\<close>

fun truthy :: "jvalue \<Rightarrow> bool" where
  "truthy JNull = False"
| "truthy (JBool b) = b"
| "truthy (JNum n) = (n \<noteq> 0)"
| "truthy (JStr s) = (s \<noteq> [])"
| "truthy (JArr xs) = (xs \<noteq> [])"
| "truthy (JObj kvs) = (kvs \<noteq> [])"

text \<open>
  \<^verbatim>\<open>d.get(key, default)\<close>: defined on dicts only; any other value has no
  attribute \<^verbatim>\<open>get\<close>.
\<close>

fun dict_get :: "jvalue \<Rightarrow> string \<Rightarrow> jvalue \<Rightarrow> error + jvalue" where
  "dict_get (JObj kvs) k d = Inr (case map_of kvs k of Some v \<Rightarrow> v | None \<Rightarrow> d)"
| "dict_get v k d = Inl (AttributeError ''get'')"

text \<open>\<^verbatim>\<open>d[key]\<close> with a string key: \<^verbatim>\<open>KeyError\<close> on a dict without the key,
  \<^verbatim>\<open>TypeError\<close> on anything that is not a dict.\<close>

fun getitem :: "jvalue \<Rightarrow> string \<Rightarrow> error + jvalue" where
  "getitem (JObj kvs) k = (case map_of kvs k of Some v \<Rightarrow> Inr v | None \<Rightarrow> Inl (KeyError k))"
| "getitem v k = Inl TypeError"

text \<open>
  What the answers carry is used as it comes: nothing in the source checks that a
  user id, a timestamp or a member is a string. The following are the
  operations of Python that the source applies to such values.

  Iteration (\<^verbatim>\<open>user_ids += x\<close> extends the list with the items of \<open>x\<close>): a list
  yields its elements, a string its characters, a dict its keys; \<^verbatim>\<open>None\<close>, a
  boolean and a number are not iterable.
\<close>

fun py_iter :: "jvalue \<Rightarrow> error + jvalue list" where
  "py_iter (JArr vs) = Inr vs"
| "py_iter (JStr s) = Inr (map (\<lambda>c. JStr [c]) s)"
| "py_iter (JObj kvs) = Inr (map (\<lambda>kv. JStr (fst kv)) kvs)"
| "py_iter v = Inl TypeError"

text \<open>
  Elements of a \<^verbatim>\<open>set\<close>: a list and a dict are unhashable (\<^verbatim>\<open>set(xs)\<close> raises
  \<^verbatim>\<open>TypeError\<close> on them); two hashable values are the same element when \<^verbatim>\<open>==\<close>
  holds, which beyond identity of value makes \<^verbatim>\<open>True\<close> the number 1 and
  \<^verbatim>\<open>False\<close> the number 0. \<open>py_key\<close> maps a value to the representative of its
  class.
\<close>

fun hashable :: "jvalue \<Rightarrow> bool" where
  "hashable (JArr vs) = False"
| "hashable (JObj kvs) = False"
| "hashable v = True"

fun py_key :: "jvalue \<Rightarrow> jvalue" where
  "py_key (JBool b) = JNum (if b then 1 else 0)"
| "py_key v = v"

text \<open>The items of \<^verbatim>\<open>sep.join(xs)\<close>: each must be a string.\<close>

fun str_items :: "jvalue list \<Rightarrow> error + string list" where
  "str_items [] = Inr []"
| "str_items (JStr s # vs) = ebind (str_items vs) (\<lambda>ss. Inr (s # ss))"
| "str_items (v # vs) = Inl TypeError"

text \<open>
  Two things the interpreter decides and the source does not: the order in which
  a set is listed (\<^verbatim>\<open>list(s)\<close>), given here as a rank of each element of the set
  at hand, by which the elements are sorted; and the text \<^verbatim>\<open>format\<close> puts for a
  value that is not a string (\<^verbatim>\<open>'None'\<close>, \<^verbatim>\<open>'True'\<close>, \<^verbatim>\<open>'5'\<close>, the \<^verbatim>\<open>repr\<close> of a list
  or dict).
\<close>

record interpreter =
  set_rank :: "string set \<Rightarrow> string \<Rightarrow> nat"
  str_of :: "jvalue \<Rightarrow> string"

definition list_of_set :: "interpreter \<Rightarrow> string list \<Rightarrow> string list" where
  "list_of_set py elems = sort_key (set_rank py (set elems)) (remdups elems)"

definition format_value :: "interpreter \<Rightarrow> jvalue \<Rightarrow> string" where
  "format_value py v = (case v of JStr s \<Rightarrow> s | _ \<Rightarrow> str_of py v)"

subsection \<open>HTTP responses and the response check (lines 47-56)\<close>

text \<open>
  What the code reads of a \<^verbatim>\<open>requests.Response\<close>: the status code, the body as
  text (\<^verbatim>\<open>response.text\<close>) and the body as parsed JSON (\<^verbatim>\<open>response.json()\<close>,
  \<open>None\<close> when the body is not JSON and the call raises \<^verbatim>\<open>ValueError\<close>).
  \<open>http_error_msg\<close> is the message the library composes for an error status
  (\<^verbatim>\<open>'404 Client Error: Not Found for url: ...'\<close>); its wording is the library's.
\<close>

record response =
  status_code :: nat
  http_error_msg :: string
  body_text :: string
  json :: "jvalue option"

text \<open>
  \<^verbatim>\<open>Response.raise_for_status()\<close> of the \<^verbatim>\<open>requests\<close> library raises
  \<^verbatim>\<open>HTTPError\<close> for a client error status (400-499) and for a server error
  status (500-599), and returns for every other status.
\<close>

definition raise_for_status :: "response \<Rightarrow> error + unit" where
  "raise_for_status response =
     (if 400 \<le> status_code response \<and> status_code response < 600
      then Inl (HTTPError (http_error_msg response))
      else Inr ())"

definition response_json :: "response \<Rightarrow> error + jvalue" where
  "response_json response = (case json response of None \<Rightarrow> Inl ValueError | Some j \<Rightarrow> Inr j)"

text \<open>
  \<^verbatim>\<open>_check_response(response, check_ok=True)\<close>. The \<^verbatim>\<open>except\<close> clause re-raises an
  \<^verbatim>\<open>HTTPError\<close> whose message is the library's message followed by
  \<^verbatim>\<open>', response body: '\<close> and the body text.
\<close>

definition check_response :: "response \<Rightarrow> bool \<Rightarrow> error + unit" where
  "check_response response check_ok =
     (case raise_for_status response of
        Inl e \<Rightarrow>
          (case e of
             HTTPError message \<Rightarrow>
               Inl (HTTPError (message @ '', response body: '' @ body_text response))
           | _ \<Rightarrow> Inl e)
      | Inr u \<Rightarrow>
          if \<not> check_ok then Inr ()
          else
            ebind (response_json response) (\<lambda>j.
            ebind (dict_get j ''ok'' JNull) (\<lambda>ok.
              if truthy ok then Inr ()
              else
                ebind (dict_get j ''error'' (JStr ''<error field missing>'')) (\<lambda>t.
                ebind (dict_get j ''errors'' JNull) (\<lambda>es.
                  Inl (SlackAPIError t es))))))"

section \<open>Requests, the server and the world\<close>

text \<open>
  URLs are kept symbolic: \<open>Urljoin base rel\<close> is \<^verbatim>\<open>urljoin(base, rel)\<close>. A request
  records what was handed to \<^verbatim>\<open>requests.get(url, headers=, params=)\<close>,
  \<^verbatim>\<open>requests.post(url, headers=, json=)\<close> or
  \<^verbatim>\<open>requests.post(url, data=, files=, headers=, timeout=)\<close>.
\<close>

datatype url = Url string | Urljoin url string

type_synonym headers = "(string \<times> string) list"

type_synonym bytes = string

datatype request =
    Get url headers "(string \<times> jvalue) list"
  | PostJson url headers "(string \<times> jvalue) list"
  | PostFiles url headers "(string \<times> jvalue) list" "(string \<times> bytes) list" nat

text \<open>
  A Cabot user as the plugin reads it. \<open>overrides\<close> lists the
  \<^verbatim>\<open>slack_user_id_override\<close> of each row of
  \<^verbatim>\<open>SlackAlertUserData.objects.filter(user__user=user)\<close>, in query order;
  \<open>profile_link\<close> is
  \<^verbatim>\<open>build_absolute_url(reverse('update-alert-user-data', ...))\<close> for the user.
\<close>

record user =
  email :: string
  username :: string
  first_name :: string
  last_name :: string
  profile_link :: string
  overrides :: "string list"

text \<open>Log records: the format string and its arguments, as given to the logger.\<close>

datatype log_arg = AStr string | AErr error | AUser user | AVal jvalue

datatype log_entry =
    LogWarning string "log_arg list"
  | LogException string "log_arg list"

text \<open>
  The world a send runs in: the requests sent so far and the log written so far.
  The server is any deterministic function from the requests received so far (the
  current one last) to its answer; it is the environment, not part of the plugin.
  Every request is answered: a request that gets no answer at all (a refused
  connection, a timeout) is not part of this model.
\<close>

record world =
  sent :: "request list"
  logged :: "log_entry list"

type_synonym server = "request list \<Rightarrow> response"

type_synonym 'a io = "world \<Rightarrow> (error + 'a) \<times> world"

definition send :: "server \<Rightarrow> request \<Rightarrow> world \<Rightarrow> response \<times> world" where
  "send srv rq w = (srv (sent w @ [rq]), w\<lparr>sent := sent w @ [rq]\<rparr>)"

definition write_log :: "log_entry \<Rightarrow> world \<Rightarrow> world" where
  "write_log l w = w\<lparr>logged := logged w @ [l]\<rparr>"

definition IGNORE_USER_ID :: string where
  "IGNORE_USER_ID = ''ignore''"

section \<open>Chat API client (lines 87-215)\<close>

text \<open>The functions keep their names in the source, without the leading underscore.\<close>

text \<open>\<^verbatim>\<open>_email_to_slack_user_id\<close> (lines 87-100).\<close>

definition email_to_slack_user_id :: "server \<Rightarrow> url \<Rightarrow> headers \<Rightarrow> string \<Rightarrow> jvalue io" where
  "email_to_slack_user_id srv url hs mail w =
     (case send srv (Get (Urljoin url ''users.lookupByEmail'') hs [(''email'', JStr mail)]) w of
        (response, w1) \<Rightarrow>
          (ebind (check_response response True) (\<lambda>u.
           ebind (response_json response) (\<lambda>j.
           ebind (getitem j ''user'') (\<lambda>usr. getitem usr ''id''))), w1))"

text \<open>\<^verbatim>\<open>_cabot_user_to_slack_user_id\<close> (lines 102-116): the first non-empty
  override wins, else the lookup by email.\<close>

definition cabot_user_to_slack_user_id :: "server \<Rightarrow> url \<Rightarrow> headers \<Rightarrow> user \<Rightarrow> jvalue io" where
  "cabot_user_to_slack_user_id srv url hs usr w =
     (case filter (\<lambda>ov. ov \<noteq> []) (overrides usr) of
        ov # rest \<Rightarrow> (Inr (JStr ov), w)
      | [] \<Rightarrow> email_to_slack_user_id srv url hs (email usr) w)"

text \<open>
  \<^verbatim>\<open>_get_channel_members\<close> (lines 118-142). What one page yields: the items
  of its \<^verbatim>\<open>['members']\<close>, by which \<^verbatim>\<open>user_ids\<close> is extended, and the value of
  \<^verbatim>\<open>.get('response_metadata', {}).get('next_cursor')\<close>.
\<close>

definition page_members :: "response \<Rightarrow> error + jvalue list" where
  "page_members response =
     ebind (response_json response) (\<lambda>j. ebind (getitem j ''members'') py_iter)"

definition page_cursor :: "response \<Rightarrow> error + jvalue" where
  "page_cursor response =
     ebind (response_json response) (\<lambda>j.
     ebind (dict_get j ''response_metadata'' (JObj [])) (\<lambda>m.
       dict_get m ''next_cursor'' JNull))"

text \<open>\<^verbatim>\<open>params['cursor'] = ...\<close>: assignment to a dict key.\<close>

fun dict_set :: "(string \<times> jvalue) list \<Rightarrow> string \<Rightarrow> jvalue \<Rightarrow> (string \<times> jvalue) list" where
  "dict_set [] k v = [(k, v)]"
| "dict_set ((k', v') # kvs) k v = (if k' = k then (k, v) # kvs else (k', v') # dict_set kvs k v)"

text \<open>
  The \<^verbatim>\<open>while True\<close> loop of lines 133-141. Nothing in the code bounds it, so it is a
  partial function: \<open>None\<close> is the loop that never leaves.
\<close>

partial_function (option) members_loop ::
  "server \<Rightarrow> url \<Rightarrow> headers \<Rightarrow> (string \<times> jvalue) list \<Rightarrow> jvalue list \<Rightarrow> world \<Rightarrow>
     ((error + jvalue list) \<times> world) option"
where
  "members_loop srv url hs params user_ids w =
     (case send srv (Get (Urljoin url ''conversations.members'') hs params) w of
        (response, w1) \<Rightarrow>
          (case check_response response True of
             Inl e \<Rightarrow> Some (Inl e, w1)
           | Inr u \<Rightarrow>
               (case page_members response of
                  Inl e \<Rightarrow> Some (Inl e, w1)
                | Inr ms \<Rightarrow>
                    (case page_cursor response of
                       Inl e \<Rightarrow> Some (Inl e, w1)
                     | Inr c \<Rightarrow>
                         if \<not> truthy c then Some (Inr (user_ids @ ms), w1)
                         else members_loop srv url hs (dict_set params ''cursor'' c)
                                (user_ids @ ms) w1))))"

declare members_loop.simps [code]

text \<open>
  The function returns \<^verbatim>\<open>set(user_ids)\<close>: \<^verbatim>\<open>TypeError\<close> when an item is
  unhashable, else the set of the items, each as the representative of its class.
\<close>

definition py_set :: "jvalue list \<Rightarrow> error + jvalue set" where
  "py_set xs = (if list_all hashable xs then Inr (set (map py_key xs)) else Inl TypeError)"

definition get_channel_members ::
  "server \<Rightarrow> url \<Rightarrow> headers \<Rightarrow> string \<Rightarrow> world \<Rightarrow> ((error + jvalue set) \<times> world) option" where
  "get_channel_members srv url hs channel_id w =
     (case members_loop srv url hs [(''channel'', JStr channel_id)] [] w of
        None \<Rightarrow> None
      | Some (Inl e, w1) \<Rightarrow> Some (Inl e, w1)
      | Some (Inr user_ids, w1) \<Rightarrow> Some (py_set user_ids, w1))"

text \<open>\<^verbatim>\<open>_join_channel\<close> (lines 144-150).\<close>

definition join_channel :: "server \<Rightarrow> url \<Rightarrow> headers \<Rightarrow> string \<Rightarrow> unit io" where
  "join_channel srv url hs channel_id w =
     (case send srv (PostJson (Urljoin url ''conversations.join'') hs
                       [(''channel'', JStr channel_id)]) w of
        (response, w1) \<Rightarrow> (check_response response True, w1))"

text \<open>\<^verbatim>\<open>sep.join(xs)\<close>.\<close>

fun py_join :: "string \<Rightarrow> string list \<Rightarrow> string" where
  "py_join sep [] = []"
| "py_join sep [x] = x"
| "py_join sep (x # y # ys) = x @ sep @ py_join sep (y # ys)"

text \<open>
  Line 167, \<^verbatim>\<open>list(set(user_ids) - user_ids_in_channel)\<close>, and the
  \<^verbatim>\<open>','.join(missing_user_ids)\<close> of line 171. \<^verbatim>\<open>set(user_ids)\<close> raises on an
  unhashable id; the difference keeps the ids that are not among the members;
  \<^verbatim>\<open>join\<close> raises unless each of them is a string; the order in which they are
  listed is the interpreter's.
\<close>

definition missing_ids :: "interpreter \<Rightarrow> jvalue list \<Rightarrow> jvalue set \<Rightarrow> error + string list" where
  "missing_ids py user_ids in_channel =
     (if \<not> list_all hashable user_ids then Inl TypeError
      else ebind (str_items (filter (\<lambda>u. py_key u \<notin> in_channel) user_ids))
             (\<lambda>missing. Inr (list_of_set py missing)))"

text \<open>\<^verbatim>\<open>_ensure_channel_members\<close> (lines 152-173).\<close>

definition ensure_channel_members ::
  "server \<Rightarrow> interpreter \<Rightarrow> url \<Rightarrow> headers \<Rightarrow> string \<Rightarrow> jvalue list \<Rightarrow> world \<Rightarrow>
     ((error + unit) \<times> world) option" where
  "ensure_channel_members srv py url hs channel_id user_ids w =
     (if length user_ids = 0 then Some (Inr (), w)
      else
        (case get_channel_members srv url hs channel_id w of
           None \<Rightarrow> None
         | Some (Inl e, w1) \<Rightarrow> Some (Inl e, w1)
         | Some (Inr user_ids_in_channel, w1) \<Rightarrow>
             (case missing_ids py user_ids user_ids_in_channel of
                Inl e \<Rightarrow> Some (Inl e, w1)
              | Inr missing_user_ids \<Rightarrow>
                  (case send srv (PostJson (Urljoin url ''conversations.invite'') hs
                          [(''channel'', JStr channel_id),
                           (''users'', JStr (py_join '','' missing_user_ids))]) w1 of
                     (response, w2) \<Rightarrow> Some (check_response response True, w2)))))"

text \<open>\<^verbatim>\<open>_upload_file\<close> (lines 175-196).\<close>

definition upload_file ::
  "server \<Rightarrow> url \<Rightarrow> headers \<Rightarrow> string \<Rightarrow> bytes \<Rightarrow> string \<Rightarrow> jvalue \<Rightarrow> nat \<Rightarrow> jvalue io" where
  "upload_file srv url hs file_name file_data channel_id thread_ts timeout_seconds w =
     (case send srv (PostFiles (Urljoin url ''files.upload'') hs
                       [(''filename'', JStr file_name), (''channels'', JStr channel_id),
                        (''thread_ts'', thread_ts)]
                       [(''file'', file_data)] timeout_seconds) w of
        (response, w1) \<Rightarrow>
          (ebind (check_response response True) (\<lambda>u.
           ebind (response_json response) (\<lambda>j. getitem j ''file'')), w1))"

text \<open>\<^verbatim>\<open>_post_message\<close> (lines 198-215).\<close>

definition post_message ::
  "server \<Rightarrow> url \<Rightarrow> headers \<Rightarrow> string \<Rightarrow> jvalue list \<Rightarrow> string \<Rightarrow> jvalue io" where
  "post_message srv url hs txt blocks channel_id w =
     (case send srv (PostJson (Urljoin url ''chat.postMessage'') hs
                       [(''channel'', JStr channel_id), (''text'', JStr txt), (''blocks'', JArr blocks)]) w of
        (response, w1) \<Rightarrow>
          (ebind (check_response response True) (\<lambda>u.
           ebind (response_json response) (\<lambda>j. getitem j ''ts'')), w1))"

section \<open>The monitored service as the plugin reads it\<close>

text \<open>
  The five values of \<^verbatim>\<open>service.overall_status\<close> (the constants
  \<^verbatim>\<open>Service.PASSING_STATUS\<close> ... \<^verbatim>\<open>Service.ACKED_STATUS\<close>), and the strings they
  are: the keys of \<^verbatim>\<open>EMOJIS\<close> (lines 25-31).
\<close>

datatype status = PASSING | WARNING | ERROR | CRITICAL | ACKED

fun status_str :: "status \<Rightarrow> string" where
  "status_str PASSING = ''PASSING''"
| "status_str WARNING = ''WARNING''"
| "status_str ERROR = ''ERROR''"
| "status_str CRITICAL = ''CRITICAL''"
| "status_str ACKED = ''ACKED''"

definition EMOJIS :: "(string \<times> string) list" where
  "EMOJIS =
     [(''WARNING'', '':large_yellow_circle:''),
      (''ERROR'', '':red_circle:''),
      (''CRITICAL'', '':alert:''),
      (''PASSING'', '':large_green_circle:''),
      (''ACKED'', '':zipper_mouth_face:'')]"

text \<open>
  A status check: \<open>check_link\<close> is
  \<^verbatim>\<open>build_absolute_url(reverse('check', kwargs={'pk': check.pk}))\<close>, \<open>status_link\<close>
  is \<^verbatim>\<open>check.get_status_link()\<close>, \<open>is_metrics_check\<close> is
  \<^verbatim>\<open>isinstance(check, MetricsStatusCheckBase)\<close>, and \<open>status_image\<close> is the outcome
  of \<^verbatim>\<open>check.get_status_image()\<close>: an exception, no image, or the image.
  \<open>job_number\<close> is the job number as \<^verbatim>\<open>format\<close> prints it.
\<close>

record check_result =
  result_error :: "string option"
  job_number :: string

record check_rec =
  check_name :: string
  check_link :: string
  last_result :: "check_result option"
  status_link :: "string option"
  is_metrics_check :: bool
  check_category :: string
  status_image :: "error + bytes option"

record slack_inst =
  server_url :: string
  access_token :: string
  default_channel_id :: "string option"

record service =
  service_name :: string
  overall_status :: status
  old_overall_status :: status
  slack_instance :: "slack_inst option"
  slack_channel_id :: "string option"
  all_failing_checks :: "check_rec list"

text \<open>Truthiness of a string attribute that may be \<^verbatim>\<open>None\<close>.\<close>

definition str_truthy :: "string option \<Rightarrow> bool" where
  "str_truthy s = (case s of None \<Rightarrow> False | Some t \<Rightarrow> t \<noteq> [])"

text \<open>\<^verbatim>\<open>_get_slack_api_for_service\<close> (lines 59-80).\<close>

definition get_slack_api_for_service :: "service \<Rightarrow> error + (url \<times> headers \<times> string)" where
  "get_slack_api_for_service svc =
     (case slack_instance svc of
        None \<Rightarrow> Inl (RuntimeError ''Slack instance not set.'')
      | Some inst \<Rightarrow>
          (let channel_id = default_channel_id inst;
               channel_id = (if str_truthy (slack_channel_id svc) then slack_channel_id svc
                             else channel_id)
           in case channel_id of
                None \<Rightarrow> Inl (RuntimeError ''Slack channel ID not set.'')
              | Some c \<Rightarrow>
                  if c = [] then Inl (RuntimeError ''Slack channel ID not set.'')
                  else Inr (Urljoin (Url (server_url inst)) ''api/'',
                            [(''Authorization'', ''Bearer '' @ access_token inst)], c)))"

section \<open>Notification policy (lines 219-247)\<close>

text \<open>
  The chain of \<^verbatim>\<open>if\<close> statements that opens \<^verbatim>\<open>send_alert\<close>: \<open>None\<close> is an early
  \<^verbatim>\<open>return\<close>, \<open>Some b\<close> is the value of \<^verbatim>\<open>include_mentions\<close> the rest of the function
  runs with.
\<close>

definition mention_policy :: "status \<Rightarrow> status \<Rightarrow> bool option" where
  "mention_policy old_status current_status =
     (let include_mentions = True;
          include_mentions = (if current_status = WARNING then False else include_mentions);
          include_mentions = (if current_status = ERROR \<and> old_status = ERROR then False
                              else include_mentions)
      in if current_status = PASSING \<and> old_status = ACKED then None
         else
           (let include_mentions = (if current_status = PASSING \<and> old_status = WARNING then False
                                    else include_mentions)
            in if current_status = ACKED \<and> old_status = ACKED then None
               else if current_status = ACKED \<and> old_status = PASSING then None
               else Some (if current_status = ACKED then False else include_mentions)))"

text \<open>The same decision under the three names the specification gives its outcomes.\<close>

datatype decision = SUPPRESS | SEND_SILENT | SEND_WITH_MENTIONS

definition decide :: "status \<Rightarrow> status \<Rightarrow> decision" where
  "decide old_status current_status =
     (case mention_policy old_status current_status of
        None \<Rightarrow> SUPPRESS
      | Some include_mentions \<Rightarrow> if include_mentions then SEND_WITH_MENTIONS else SEND_SILENT)"

text \<open>The rule list of section 4.1 of the specification, first match first.\<close>

fun policy_table :: "status \<Rightarrow> status \<Rightarrow> decision" where
  "policy_table previous WARNING = SEND_SILENT"
| "policy_table ERROR ERROR = SEND_SILENT"
| "policy_table previous ERROR = SEND_WITH_MENTIONS"
| "policy_table ACKED PASSING = SUPPRESS"
| "policy_table WARNING PASSING = SEND_SILENT"
| "policy_table previous PASSING = SEND_WITH_MENTIONS"
| "policy_table ACKED ACKED = SUPPRESS"
| "policy_table PASSING ACKED = SUPPRESS"
| "policy_table previous ACKED = SEND_SILENT"
| "policy_table previous CRITICAL = SEND_WITH_MENTIONS"

section \<open>Message composition (lines 283-371)\<close>

text \<open>
  \<^verbatim>\<open>s.replace(old, new)\<close>: every non-overlapping occurrence of \<open>old\<close>, scanning from
  the left; with an empty \<open>old\<close>, \<open>new\<close> is put before every character and at the end.
\<close>

function py_replace :: "string \<Rightarrow> string \<Rightarrow> string \<Rightarrow> string" where
  "py_replace old new [] = (if old = [] then new else [])"
| "py_replace old new (c # s) =
     (if old = [] then new @ c # py_replace old new s
      else if prefix old (c # s) then new @ py_replace old new (drop (length old) (c # s))
      else c # py_replace old new s)"
  by pat_completeness auto
termination
  by (relation "measure (\<lambda>(old, new, s). length s)") auto

text \<open>\<^verbatim>\<open>s.upper()\<close> on ASCII letters.\<close>

definition py_upper :: "string \<Rightarrow> string" where
  "py_upper s =
     map (\<lambda>c. let n = (of_char c :: nat) in if 97 \<le> n \<and> n \<le> 122 then char_of (n - 32) else c) s"

definition header_block :: "service \<Rightarrow> jvalue" where
  "header_block svc =
     (let current_status = status_str (overall_status svc);
          emoji = (case map_of EMOJIS current_status of Some e \<Rightarrow> e | None \<Rightarrow> [])
      in JObj [(''type'', JStr ''header''),
               (''text'', JObj [(''type'', JStr ''plain_text''),
                                (''text'', JStr (emoji @ '' '' @ service_name svc @ '' status is '' @
                                                 py_upper current_status @ '' '' @ emoji))])])"

text \<open>The text of a check's section block (lines 315-317):
  \<^verbatim>\<open>"*<{link}|{name}>* - `{error}`"\<close>.\<close>

definition section_text :: "check_rec \<Rightarrow> string" where
  "section_text chk =
     (let err = (case last_result chk of Some r \<Rightarrow> result_error r | None \<Rightarrow> None)
      in ''*<'' @ check_link chk @ ''|'' @
         py_replace ''>'' [CHR 0x5C, CHR ''>''] (check_name chk) @
         ''>* - '' @ [CHR 0x60] @
         (if str_truthy err
          then (case err of Some e \<Rightarrow> py_replace [CHR 0x60] [CHR 0x5C, CHR 0x60] e | None \<Rightarrow> [])
          else []) @
         [CHR 0x60])"

text \<open>One failing check's block (lines 295-332); \<open>jenkins\<close> is
  \<^verbatim>\<open>urljoin(settings.JENKINS_API, '/')\<close>.\<close>

definition check_block :: "string \<Rightarrow> check_rec \<Rightarrow> jvalue" where
  "check_block jenkins chk =
     (let link_and_text =
            (if is_metrics_check chk then (status_link chk, ''Grafana'')
             else if check_category chk = ''Jenkins Check'' then
               (Some (jenkins @ ''job/'' @ check_name chk @ ''/'' @
                      (case last_result chk of Some r \<Rightarrow> job_number r | None \<Rightarrow> ''None'') @
                      ''/console''),
                ''Jenkins'')
             else (status_link chk, []));
          block = [(''type'', JStr ''section''),
                   (''text'', JObj [(''type'', JStr ''mrkdwn''), (''text'', JStr (section_text chk))])]
      in case link_and_text of
           (link, status_text) \<Rightarrow>
             if str_truthy link then
               JObj (block @
                 [(''accessory'',
                   JObj [(''type'', JStr ''button''),
                         (''text'', JObj [(''type'', JStr ''plain_text''),
                                          (''text'', JStr status_text),
                                          (''emoji'', JBool False)]),
                         (''url'', JStr (case link of Some l \<Rightarrow> l | None \<Rightarrow> [])),
                         (''action_id'', JStr ''button-status'')])])
             else JObj block)"

definition mention_block :: "interpreter \<Rightarrow> jvalue list \<Rightarrow> jvalue" where
  "mention_block py user_ids =
     JObj [(''type'', JStr ''context''),
           (''elements'',
            JArr [JObj [(''type'', JStr ''mrkdwn''),
                        (''text'', JStr (py_join '' ''
                                           (map (\<lambda>user_id. ''<@'' @ format_value py user_id @ ''>'')
                                              user_ids) @
                                         '' :point_up:''))]])]"

definition display_name :: "user \<Rightarrow> string" where
  "display_name usr =
     (let name = (if email usr \<noteq> [] then email usr else username usr)
      in if first_name usr \<noteq> [] \<and> last_name usr \<noteq> []
         then name @ '' ('' @ first_name usr @ '' '' @ last_name usr @ '')''
         else name)"

definition missing_users_str :: "user list \<Rightarrow> string" where
  "missing_users_str missing_users =
     py_join '', '' (map (\<lambda>usr. display_name usr @ '' (<'' @ profile_link usr @ ''|profile>)'')
                       missing_users)"

definition missing_block :: "user list \<Rightarrow> jvalue" where
  "missing_block missing_users =
     JObj [(''type'', JStr ''context''),
           (''elements'',
            JArr [JObj [(''type'', JStr ''mrkdwn''),
                        (''text'', JStr (''Could not find Slack account for some users: '' @
                           missing_users_str missing_users @ ''.'' @ [CHR 0x0A] @
                           ''Please ensure they have a Slack account. '' @
                           ''If their Slack email doesn'' @ [CHR 0x27] @
                           ''t match their Cabot email, set a user ID override in '' @
                           ''their Cabot profile, or enter an ID of '' @ [CHR 0x27] @
                           IGNORE_USER_ID @ [CHR 0x27] @ '' to silence this warning.''))]])]"

definition compose_blocks ::
  "interpreter \<Rightarrow> string \<Rightarrow> service \<Rightarrow> bool \<Rightarrow> jvalue list \<Rightarrow> user list \<Rightarrow> jvalue list" where
  "compose_blocks py jenkins svc include_mentions user_ids missing_users =
     [header_block svc] @
     map (check_block jenkins) (all_failing_checks svc) @
     (if include_mentions
      then (if user_ids \<noteq> [] then [mention_block py user_ids] else []) @
           (if missing_users \<noteq> [] then [missing_block missing_users] else [])
      else [])"

section \<open>Alert dispatcher (lines 217-390)\<close>

text \<open>Lines 252-260: the join, with its \<^verbatim>\<open>except\<close> clause.\<close>

definition try_join :: "server \<Rightarrow> url \<Rightarrow> headers \<Rightarrow> string \<Rightarrow> unit io" where
  "try_join srv url hs channel_id w =
     (case join_channel srv url hs channel_id w of
        (Inr u, w1) \<Rightarrow> (Inr (), w1)
      | (Inl e, w1) \<Rightarrow>
          if caught e then
            (if is_slack_api_error e \<and>
                error_type e = Inr (JStr ''method_not_supported_for_channel_type'')
             then (Inr (), w1)
             else (Inr (), write_log (LogWarning ''Could not join channel %s: %s.''
                                        [AStr channel_id, AErr e]) w1))
          else (Inl e, w1))"

text \<open>
  Lines 262-275: the loop over the users. In the \<^verbatim>\<open>except\<close> clause the user is
  appended to \<^verbatim>\<open>missing_users\<close>; unless the exception is a \<open>SlackAPIError\<close> of type
  \<^verbatim>\<open>users_not_found\<close>, the arguments of \<^verbatim>\<open>logger.exception\<close> are evaluated, among
  them \<^verbatim>\<open>e.error_type\<close>.
\<close>

fun map_users ::
  "server \<Rightarrow> url \<Rightarrow> headers \<Rightarrow> user list \<Rightarrow> jvalue list \<Rightarrow> user list \<Rightarrow> (jvalue list \<times> user list) io" where
  "map_users srv url hs [] user_ids missing_users w = (Inr (user_ids, missing_users), w)"
| "map_users srv url hs (usr # users) user_ids missing_users w =
     (case cabot_user_to_slack_user_id srv url hs usr w of
        (Inr user_id, w1) \<Rightarrow>
          map_users srv url hs users
            (if user_id \<noteq> JStr IGNORE_USER_ID then user_ids @ [user_id] else user_ids)
            missing_users w1
      | (Inl e, w1) \<Rightarrow>
          if caught e then
            (if \<not> (is_slack_api_error e \<and> error_type e = Inr (JStr ''users_not_found''))
             then
               (case error_type e of
                  Inl attribute_error \<Rightarrow> (Inl attribute_error, w1)
                | Inr t \<Rightarrow>
                    map_users srv url hs users user_ids (missing_users @ [usr])
                      (write_log (LogException
                         ''Failed to find Slack user for Cabot user %s, got unexpected error %s.''
                         [AUser usr, AVal t]) w1))
             else map_users srv url hs users user_ids (missing_users @ [usr]) w1)
          else (Inl e, w1))"

text \<open>Lines 277-281.\<close>

definition try_ensure_members ::
  "server \<Rightarrow> interpreter \<Rightarrow> url \<Rightarrow> headers \<Rightarrow> string \<Rightarrow> jvalue list \<Rightarrow> world \<Rightarrow>
     ((error + unit) \<times> world) option" where
  "try_ensure_members srv py url hs channel_id user_ids w =
     (case ensure_channel_members srv py url hs channel_id user_ids w of
        None \<Rightarrow> None
      | Some (Inr u, w1) \<Rightarrow> Some (Inr (), w1)
      | Some (Inl e, w1) \<Rightarrow>
          if caught e
          then Some (Inr (), write_log (LogException ''Failed to add users to channel %s: %s''
                                          [AStr channel_id, AErr e]) w1)
          else Some (Inl e, w1))"

text \<open>Lines 373-380: the post; its \<^verbatim>\<open>except\<close> clause logs and re-raises.\<close>

definition try_post ::
  "server \<Rightarrow> url \<Rightarrow> headers \<Rightarrow> string \<Rightarrow> jvalue list \<Rightarrow> string \<Rightarrow> jvalue io" where
  "try_post srv url hs txt blocks channel_id w =
     (case post_message srv url hs txt blocks channel_id w of
        (Inr ts, w1) \<Rightarrow> (Inr ts, w1)
      | (Inl e, w1) \<Rightarrow>
          if caught e
          then (Inl e, write_log (LogException ''Error posting message to Slack channel %s: %s''
                                    [AStr channel_id, AErr e]) w1)
          else (Inl e, w1))"

text \<open>Lines 382-390: the loop over \<^verbatim>\<open>failing_checks[:5]\<close> inside one \<^verbatim>\<open>try\<close>.\<close>

fun upload_images ::
  "server \<Rightarrow> url \<Rightarrow> headers \<Rightarrow> string \<Rightarrow> jvalue \<Rightarrow> check_rec list \<Rightarrow> unit io" where
  "upload_images srv url hs channel_id ts [] w = (Inr (), w)"
| "upload_images srv url hs channel_id ts (chk # checks) w =
     (case status_image chk of
        Inl e \<Rightarrow> (Inl e, w)
      | Inr None \<Rightarrow> upload_images srv url hs channel_id ts checks w
      | Inr (Some img) \<Rightarrow>
          (case upload_file srv url hs (check_name chk @ ''.png'') img channel_id ts 30 w of
             (Inl e, w1) \<Rightarrow> (Inl e, w1)
           | (Inr f, w1) \<Rightarrow> upload_images srv url hs channel_id ts checks w1))"

definition try_upload_images ::
  "server \<Rightarrow> url \<Rightarrow> headers \<Rightarrow> string \<Rightarrow> jvalue \<Rightarrow> check_rec list \<Rightarrow> unit io" where
  "try_upload_images srv url hs channel_id ts failing_checks w =
     (case upload_images srv url hs channel_id ts (take 5 failing_checks) w of
        (Inr u, w1) \<Rightarrow> (Inr (), w1)
      | (Inl e, w1) \<Rightarrow>
          if caught e
          then (Inr (), write_log (LogException ''Failed to get/upload images to channel ID %s: %s''
                                     [AStr channel_id, AErr e]) w1)
          else (Inl e, w1))"

text \<open>
  Lines 249-371, once the policy has let the send through: join, resolve the users,
  reconcile the membership, build the blocks.
\<close>

definition prepare ::
  "server \<Rightarrow> interpreter \<Rightarrow> string \<Rightarrow> service \<Rightarrow> user list \<Rightarrow> bool \<Rightarrow> url \<Rightarrow> headers \<Rightarrow> string \<Rightarrow>
     world \<Rightarrow> ((error + jvalue list) \<times> world) option" where
  "prepare srv py jenkins svc users include_mentions url hs channel_id w =
     (case try_join srv url hs channel_id w of
        (Inl e, w1) \<Rightarrow> Some (Inl e, w1)
      | (Inr u, w1) \<Rightarrow>
          (case map_users srv url hs users [] [] w1 of
             (Inl e, w2) \<Rightarrow> Some (Inl e, w2)
           | (Inr (user_ids, missing_users), w2) \<Rightarrow>
               (case try_ensure_members srv py url hs channel_id user_ids w2 of
                  None \<Rightarrow> None
                | Some (Inl e, w3) \<Rightarrow> Some (Inl e, w3)
                | Some (Inr u', w3) \<Rightarrow>
                    Some (Inr (compose_blocks py jenkins svc include_mentions user_ids
                                 missing_users), w3))))"

text \<open>\<^verbatim>\<open>SlackAlert.send_alert\<close> (lines 217-390).\<close>

definition send_alert ::
  "server \<Rightarrow> interpreter \<Rightarrow> string \<Rightarrow> service \<Rightarrow> user list \<Rightarrow> user list \<Rightarrow> world \<Rightarrow>
     ((error + unit) \<times> world) option" where
  "send_alert srv py jenkins svc users duty_officers w =
     (case mention_policy (old_overall_status svc) (overall_status svc) of
        None \<Rightarrow> Some (Inr (), w)
      | Some include_mentions \<Rightarrow>
          (case get_slack_api_for_service svc of
             Inl e \<Rightarrow> Some (Inl e, w)
           | Inr (url, hs, channel_id) \<Rightarrow>
               (case prepare srv py jenkins svc (users @ duty_officers) include_mentions url hs
                       channel_id w of
                  None \<Rightarrow> None
                | Some (Inl e, w3) \<Rightarrow> Some (Inl e, w3)
                | Some (Inr blocks, w3) \<Rightarrow>
                    (case try_post srv url hs
                            (service_name svc @ '' is '' @ status_str (overall_status svc))
                            blocks channel_id w3 of
                       (Inl e, w4) \<Rightarrow> Some (Inl e, w4)
                     | (Inr ts, w4) \<Rightarrow>
                         Some (try_upload_images srv url hs channel_id ts (all_failing_checks svc) w4)))))"

section \<open>Paginated listings\<close>

text \<open>
  A listing of \<open>N\<close> pages is a non-empty list of responses that each pass the response
  check and carry readable \<^verbatim>\<open>members\<close> (an iterable of hashable items) and a
  readable cursor, of which all but the last carry
  a truthy cursor and the last a falsy one. The requests the loop sends for such a
  listing start from the given parameters and carry, from the second on, the
  cursor of the page before; the server serves the listing when it answers the
  \<open>i\<close>-th of these requests with the \<open>i\<close>-th page.
\<close>

fun is_ok :: "error + 'a \<Rightarrow> bool" where
  "is_ok (Inr x) = True"
| "is_ok (Inl e) = False"

definition readable_page :: "response \<Rightarrow> bool" where
  "readable_page p =
     (is_ok (check_response p True) \<and>
      (case page_members p of Inr ms \<Rightarrow> list_all hashable ms | Inl e \<Rightarrow> False) \<and>
      is_ok (page_cursor p))"

definition has_next :: "response \<Rightarrow> bool" where
  "has_next p = (case page_cursor p of Inr c \<Rightarrow> truthy c | Inl e \<Rightarrow> False)"

text \<open>The items of a page, and the elements they are in the set of members.\<close>

definition page_items :: "response \<Rightarrow> jvalue list" where
  "page_items p = (case page_members p of Inr ms \<Rightarrow> ms | Inl e \<Rightarrow> [])"

definition members_of :: "response \<Rightarrow> jvalue list" where
  "members_of p = map py_key (page_items p)"

definition cursor_of :: "response \<Rightarrow> jvalue" where
  "cursor_of p = (case page_cursor p of Inr c \<Rightarrow> c | Inl e \<Rightarrow> JNull)"

fun page_requests :: "url \<Rightarrow> headers \<Rightarrow> (string \<times> jvalue) list \<Rightarrow> response list \<Rightarrow> request list" where
  "page_requests url hs params [] = []"
| "page_requests url hs params (p # ps) =
     Get (Urljoin url ''conversations.members'') hs params #
     page_requests url hs (dict_set params ''cursor'' (cursor_of p)) ps"

fun serves :: "server \<Rightarrow> request list \<Rightarrow> request list \<Rightarrow> response list \<Rightarrow> bool" where
  "serves srv history [] [] = True"
| "serves srv history (rq # rqs) (p # ps) =
     (srv (history @ [rq]) = p \<and> serves srv (history @ [rq]) rqs ps)"
| "serves srv history rqs ps = False"

fun listing :: "response list \<Rightarrow> bool" where
  "listing [] = False"
| "listing [p] = (readable_page p \<and> \<not> has_next p)"
| "listing (p # q # ps) = (readable_page p \<and> has_next p \<and> listing (q # ps))"

section \<open>Expected image uploads\<close>

text \<open>
  The upload requests for a list of checks, in the order of the list: one for each
  check whose \<^verbatim>\<open>get_status_image()\<close> returns an image, as a reply to the message \<open>ts\<close>.
\<close>

definition image_uploads :: "url \<Rightarrow> headers \<Rightarrow> string \<Rightarrow> jvalue \<Rightarrow> check_rec list \<Rightarrow> request list" where
  "image_uploads url hs channel_id ts checks =
     concat (map (\<lambda>chk.
       case status_image chk of
         Inr (Some img) \<Rightarrow>
           [PostFiles (Urljoin url ''files.upload'') hs
              [(''filename'', JStr (check_name chk @ ''.png'')), (''channels'', JStr channel_id),
               (''thread_ts'', ts)]
              [(''file'', img)] 30]
       | _ \<Rightarrow> []) checks)"

section \<open>Sample inputs\<close>

text \<open>Concrete responses, servers and services on which the theorems below are run.\<close>

definition ok_body :: "(string \<times> jvalue) list \<Rightarrow> response" where
  "ok_body kvs =
     \<lparr>status_code = 200, http_error_msg = [], body_text = [],
      json = Some (JObj ((''ok'', JBool True) # kvs))\<rparr>"

definition api_error :: "string \<Rightarrow> response" where
  "api_error t =
     \<lparr>status_code = 200, http_error_msg = [], body_text = [],
      json = Some (JObj [(''ok'', JBool False), (''error'', JStr t)])\<rparr>"

definition http_failure :: "nat \<Rightarrow> response" where
  "http_failure code =
     \<lparr>status_code = code, http_error_msg = ''Server Error'', body_text = ''oops'',
      json = None\<rparr>"

definition not_modified :: response where
  "not_modified =
     \<lparr>status_code = 304, http_error_msg = [], body_text = [],
      json = Some (JObj [(''ok'', JBool True)])\<rparr>"

definition details_only :: response where
  "details_only =
     \<lparr>status_code = 200, http_error_msg = [], body_text = [],
      json = Some (JObj [(''errors'', JArr [JStr ''boom''])])\<rparr>"

definition empty_envelope :: response where
  "empty_envelope =
     \<lparr>status_code = 200, http_error_msg = [], body_text = [], json = Some (JObj [])\<rparr>"

definition zero_ok :: response where
  "zero_ok =
     \<lparr>status_code = 200, http_error_msg = [], body_text = [],
      json = Some (JObj [(''ok'', JNum 0)])\<rparr>"

definition w0 :: world where
  "w0 = \<lparr>sent = [], logged = []\<rparr>"

definition srv_down :: server where
  "srv_down history = http_failure 500"

definition svc_acked :: service where
  "svc_acked =
     \<lparr>service_name = ''Service'', overall_status = ACKED, old_overall_status = ACKED,
      slack_instance = None, slack_channel_id = None, all_failing_checks = []\<rparr>"

definition api :: url where
  "api = Urljoin (Url ''https://slack.com'') ''api/''"

definition auth :: headers where
  "auth = [(''Authorization'', ''Bearer SOME-TOKEN'')]"

definition page1 :: response where
  "page1 = ok_body [(''members'', JArr [JStr ''U1'', JStr ''U2'']),
                    (''response_metadata'', JObj [(''next_cursor'', JStr ''c1'')])]"

definition page2 :: response where
  "page2 = ok_body [(''members'', JArr [JStr ''U3''])]"

fun endpoint :: "request \<Rightarrow> string" where
  "endpoint (Get (Urljoin b e) hs ps) = e"
| "endpoint (PostJson (Urljoin b e) hs ps) = e"
| "endpoint (PostFiles (Urljoin b e) hs d f t) = e"
| "endpoint rq = []"

text \<open>A server that knows one user (\<^verbatim>\<open>ann@example.com\<close>, \<^verbatim>\<open>U1\<close>), lists the channel's
  members on two pages, and accepts everything else.\<close>

definition demo_answer :: "request \<Rightarrow> response" where
  "demo_answer rq =
     (case rq of
        Get u hs ps \<Rightarrow>
          if endpoint rq = ''users.lookupByEmail'' then
            (if map_of ps ''email'' = Some (JStr ''ann@example.com'')
             then ok_body [(''user'', JObj [(''id'', JStr ''U1'')])]
             else api_error ''users_not_found'')
          else if map_of ps ''cursor'' = None then page1 else page2
      | PostJson u hs ps \<Rightarrow>
          if endpoint rq = ''chat.postMessage'' then ok_body [(''ts'', JStr ''1700000000.000100'')]
          else ok_body []
      | PostFiles u hs d f t \<Rightarrow> ok_body [(''file'', JObj [])])"

definition srv_demo :: server where
  "srv_demo history = demo_answer (last history)"

text \<open>The same server with one endpoint answering \<open>r\<close> instead.\<close>

definition srv_failing :: "string \<Rightarrow> response \<Rightarrow> server" where
  "srv_failing e r history =
     (if endpoint (last history) = e then r else demo_answer (last history))"

definition chk_escapes :: check_rec where
  "chk_escapes =
     \<lparr>check_name = ''a>b'', check_link = ''http://localhost/check/1/'',
      last_result = Some \<lparr>result_error = Some [CHR ''x'', CHR 0x60, CHR ''y''], job_number = ''7''\<rparr>,
      status_link = None, is_metrics_check = False, check_category = ''HTTP check'',
      status_image = Inr None\<rparr>"

definition plain_check :: "string \<Rightarrow> error + bytes option \<Rightarrow> check_rec" where
  "plain_check n img =
     \<lparr>check_name = n, check_link = ''http://localhost/check/'' @ n @ ''/'',
      last_result = None, status_link = None, is_metrics_check = False,
      check_category = ''HTTP check'', status_image = img\<rparr>"

definition slack_cfg :: slack_inst where
  "slack_cfg =
     \<lparr>server_url = ''https://slack.com'', access_token = ''SOME-TOKEN'',
      default_channel_id = Some ''default-channel''\<rparr>"

text \<open>A service that went from PASSING to ERROR with six failing checks, of which the
  first, the third and the sixth have an image.\<close>

definition svc_six :: service where
  "svc_six =
     \<lparr>service_name = ''Service'', overall_status = ERROR, old_overall_status = PASSING,
      slack_instance = Some slack_cfg, slack_channel_id = Some ''C456'',
      all_failing_checks =
        [plain_check ''c1'' (Inr (Some ''png1'')), plain_check ''c2'' (Inr None),
         plain_check ''c3'' (Inr (Some ''png3'')), plain_check ''c4'' (Inr None),
         plain_check ''c5'' (Inr None), plain_check ''c6'' (Inr (Some ''png6''))]\<rparr>"

definition join_rq :: request where
  "join_rq = PostJson (Urljoin api ''conversations.join'') auth [(''channel'', JStr ''C456'')]"

definition post_rq :: "service \<Rightarrow> jvalue list \<Rightarrow> request" where
  "post_rq svc blocks =
     PostJson (Urljoin api ''chat.postMessage'') auth
       [(''channel'', JStr ''C456''),
        (''text'', JStr (service_name svc @ '' is '' @ status_str (overall_status svc))),
        (''blocks'', JArr blocks)]"

definition upload_rq :: "string \<Rightarrow> bytes \<Rightarrow> request" where
  "upload_rq n img =
     PostFiles (Urljoin api ''files.upload'') auth
       [(''filename'', JStr (n @ ''.png'')), (''channels'', JStr ''C456''),
        (''thread_ts'', JStr ''1700000000.000100'')]
       [(''file'', img)] 30"

text \<open>
  A sample interpreter: it lists a set in the order in which its elements last
  occur in the list it was built from, and prints \<^verbatim>\<open>None\<close> for a value that is not a
  string. The user ids of the samples are strings and at most one of them is not
  a member, so neither choice shows in a sample run.
\<close>

definition py0 :: interpreter where
  "py0 = \<lparr>set_rank = (\<lambda>elems u. 0), str_of = (\<lambda>v. ''None'')\<rparr>"

definition blocks_six :: "jvalue list" where
  "blocks_six = compose_blocks py0 [] svc_six True [] []"

definition posted :: world where
  "posted = \<lparr>sent = [join_rq, post_rq svc_six blocks_six], logged = []\<rparr>"

definition ann :: user where
  "ann = \<lparr>email = ''ann@example.com'', username = ''ann'', first_name = ''Ann'', last_name = ''Lee'',
          profile_link = ''http://localhost/user/1/'', overrides = []\<rparr>"

definition bob :: user where
  "bob = \<lparr>email = ''bob@example.com'', username = ''bob'', first_name = [], last_name = [],
          profile_link = ''http://localhost/user/2/'', overrides = []\<rparr>"

definition lookup_rq :: "user \<Rightarrow> request" where
  "lookup_rq usr = Get (Urljoin api ''users.lookupByEmail'') auth [(''email'', JStr (email usr))]"

section \<open>The response check\<close>

lemma check_response_http:
  assumes "400 \<le> status_code r" and "status_code r < 600"
  shows "check_response r c = Inl (HTTPError (http_error_msg r @ '', response body: '' @ body_text r))"
  using assms by (simp add: check_response_def raise_for_status_def)

lemma check_response_envelope:
  assumes "\<not> (400 \<le> status_code r \<and> status_code r < 600)"
    and "json r = Some (JObj kvs)"
  shows "check_response r True =
     (if truthy (case map_of kvs ''ok'' of Some v \<Rightarrow> v | None \<Rightarrow> JNull) then Inr ()
      else Inl (SlackAPIError
        (case map_of kvs ''error'' of Some t \<Rightarrow> t | None \<Rightarrow> JStr ''<error field missing>'')
        (case map_of kvs ''errors'' of Some es \<Rightarrow> es | None \<Rightarrow> JNull)))"
  using assms by (simp add: check_response_def raise_for_status_def response_json_def)

lemma check_response_no_http:
  assumes "\<not> (400 \<le> status_code r \<and> status_code r < 600)"
  shows "check_response r c \<noteq> Inl (HTTPError msg)"
proof -
  from assms have s: "raise_for_status r = Inr ()"
    by (auto simp: raise_for_status_def)
  show ?thesis
  proof (cases "json r")
    case None
    with s show ?thesis by (simp add: check_response_def response_json_def)
  next
    case (Some j)
    with s show ?thesis
      by (cases j) (simp_all add: check_response_def response_json_def)
  qed
qed

text \<open>
  C7 (as amended). A response with a 4xx or 5xx status raises the transport error,
  whose message is the library's message followed by the response body; a 2xx
  response whose envelope has \<open>ok = false\<close> raises the API error carrying the
  envelope's \<open>error\<close> and its optional \<open>errors\<close>. A response with any other
  status raises no transport error.
\<close>

theorem check_response_raises:
  "(400 \<le> status_code r \<and> status_code r < 600 \<longrightarrow>
      check_response r c =
        Inl (HTTPError (http_error_msg r @ '', response body: '' @ body_text r)))
   \<and> (200 \<le> status_code r \<and> status_code r < 300 \<and> json r = Some (JObj kvs) \<and>
        map_of kvs ''ok'' = Some (JBool False) \<longrightarrow>
      check_response r True =
        Inl (SlackAPIError
          (case map_of kvs ''error'' of Some t \<Rightarrow> t | None \<Rightarrow> JStr ''<error field missing>'')
          (case map_of kvs ''errors'' of Some es \<Rightarrow> es | None \<Rightarrow> JNull)))
   \<and> (\<not> (400 \<le> status_code r \<and> status_code r < 600) \<longrightarrow>
        check_response r c \<noteq> Inl (HTTPError msg))"
proof (intro conjI impI)
  assume "\<not> (400 \<le> status_code r \<and> status_code r < 600)"
  then show "check_response r c \<noteq> Inl (HTTPError msg)"
    by (rule check_response_no_http)
next
  assume "400 \<le> status_code r \<and> status_code r < 600"
  then show "check_response r c =
      Inl (HTTPError (http_error_msg r @ '', response body: '' @ body_text r))"
    by (simp add: check_response_http)
next
  assume a: "200 \<le> status_code r \<and> status_code r < 300 \<and> json r = Some (JObj kvs) \<and>
        map_of kvs ''ok'' = Some (JBool False)"
  then have "\<not> (400 \<le> status_code r \<and> status_code r < 600)" by simp
  with a show "check_response r True =
        Inl (SlackAPIError
          (case map_of kvs ''error'' of Some t \<Rightarrow> t | None \<Rightarrow> JStr ''<error field missing>'')
          (case map_of kvs ''errors'' of Some es \<Rightarrow> es | None \<Rightarrow> JNull))"
    by (simp add: check_response_envelope)
qed

theorem check_response_raises_witness:
  "check_response (http_failure 500) True = Inl (HTTPError ''Server Error, response body: oops'')
   \<and> check_response (api_error ''users_not_found'') True =
       Inl (SlackAPIError (JStr ''users_not_found'') JNull)
   \<and> check_response not_modified True \<noteq> Inl (HTTPError ''Not Modified'')"
  using check_response_raises [of "http_failure 500" True "[]"]
    check_response_raises [of "api_error ''users_not_found''" True
      "[(''ok'', JBool False), (''error'', JStr ''users_not_found'')]"]
    check_response_raises [of not_modified True "[]" "''Not Modified''"]
  by (simp add: http_failure_def api_error_def not_modified_def)

text \<open>
  C7 as stated fails: status 304 is not a 2xx status, yet the check returns without
  raising.
\<close>

theorem check_response_304_counterexample:
  "status_code not_modified = 304 \<and> check_response not_modified True = Inr ()"
  by (simp add: not_modified_def check_response_def raise_for_status_def response_json_def)

text \<open>
  C10 (as amended). A 2xx response whose envelope has no \<open>ok\<close> field, or a falsy one,
  raises the API error exactly as the same envelope with \<open>ok = false\<close> does; its
  error type is the envelope's \<open>error\<close>, or the placeholder when that field is absent,
  and its details are the envelope's \<open>errors\<close>, or \<^verbatim>\<open>None\<close> when that field is absent.
\<close>

theorem check_response_falsy_ok:
  assumes "200 \<le> status_code r" and "status_code r < 300"
    and "json r = Some (JObj kvs)"
    and "map_of kvs ''ok'' = None \<or> (\<exists>v. map_of kvs ''ok'' = Some v \<and> \<not> truthy v)"
  shows "check_response r True =
           Inl (SlackAPIError
             (case map_of kvs ''error'' of Some t \<Rightarrow> t | None \<Rightarrow> JStr ''<error field missing>'')
             (case map_of kvs ''errors'' of Some es \<Rightarrow> es | None \<Rightarrow> JNull))
         \<and> check_response r True =
             check_response (r\<lparr>json := Some (JObj ((''ok'', JBool False) # kvs))\<rparr>) True"
proof -
  from assms(1,2) have s: "\<not> (400 \<le> status_code r \<and> status_code r < 600)" by simp
  from assms(4) have f: "\<not> truthy (case map_of kvs ''ok'' of Some v \<Rightarrow> v | None \<Rightarrow> JNull)"
    by auto
  have 1: "check_response r True =
           Inl (SlackAPIError
             (case map_of kvs ''error'' of Some t \<Rightarrow> t | None \<Rightarrow> JStr ''<error field missing>'')
             (case map_of kvs ''errors'' of Some es \<Rightarrow> es | None \<Rightarrow> JNull))"
    using check_response_envelope [OF s assms(3)] f by simp
  have 2: "check_response (r\<lparr>json := Some (JObj ((''ok'', JBool False) # kvs))\<rparr>) True =
           Inl (SlackAPIError
             (case map_of kvs ''error'' of Some t \<Rightarrow> t | None \<Rightarrow> JStr ''<error field missing>'')
             (case map_of kvs ''errors'' of Some es \<Rightarrow> es | None \<Rightarrow> JNull))"
    using s by (simp add: check_response_def raise_for_status_def response_json_def)
  from 1 2 show ?thesis by simp
qed

theorem check_response_falsy_ok_witness:
  "check_response (empty_envelope) True =
     Inl (SlackAPIError (JStr ''<error field missing>'') JNull)
   \<and> check_response (zero_ok) True = Inl (SlackAPIError (JStr ''<error field missing>'') JNull)"
  using check_response_falsy_ok [of empty_envelope "[]"]
    check_response_falsy_ok [of zero_ok "[(''ok'', JNum 0)]"]
  by (simp add: empty_envelope_def zero_ok_def)

text \<open>
  C10 as stated fails: the \<open>error\<close> field is absent, yet the details are not
  \<^verbatim>\<open>None\<close>.
\<close>

theorem check_response_details_counterexample:
  "json details_only = Some (JObj [(''errors'', JArr [JStr ''boom''])])
   \<and> check_response details_only True =
       Inl (SlackAPIError (JStr ''<error field missing>'') (JArr [JStr ''boom'']))"
  by (simp add: details_only_def check_response_def raise_for_status_def response_json_def)

section \<open>The notification policy\<close>

text \<open>
  C1. For every previous and current status the decision taken by the code is the
  one of the table of section 4.1: silent for any move to WARNING; silent for ERROR
  after ERROR and with mentions for any other move to ERROR; for a move to PASSING,
  nothing after ACKED, silent after WARNING, with mentions otherwise; for a move to
  ACKED, nothing after ACKED or PASSING and silent otherwise; with mentions for any
  move to CRITICAL.
\<close>

theorem decide_table:
  "decide previous current = policy_table previous current
   \<and> decide previous WARNING = SEND_SILENT
   \<and> decide previous ERROR = (if previous = ERROR then SEND_SILENT else SEND_WITH_MENTIONS)
   \<and> decide previous PASSING =
       (if previous = ACKED then SUPPRESS
        else if previous = WARNING then SEND_SILENT else SEND_WITH_MENTIONS)
   \<and> decide previous ACKED =
       (if previous = ACKED \<or> previous = PASSING then SUPPRESS else SEND_SILENT)
   \<and> decide previous CRITICAL = SEND_WITH_MENTIONS"
  by (cases previous; cases current) (simp_all add: decide_def mention_policy_def)

text \<open>
  C2. When the decision is to suppress, which is the case exactly for ACKED to
  PASSING, ACKED to ACKED and PASSING to ACKED, \<open>send_alert\<close> returns at once: no
  request is sent and nothing is logged.
\<close>

theorem suppress_sends_nothing:
  "(decide (old_overall_status svc) (overall_status svc) = SUPPRESS \<longleftrightarrow>
      (old_overall_status svc, overall_status svc) \<in>
        {(ACKED, PASSING), (ACKED, ACKED), (PASSING, ACKED)})
   \<and> (decide (old_overall_status svc) (overall_status svc) = SUPPRESS \<longrightarrow>
        send_alert srv py jenkins svc users duty_officers w = Some (Inr (), w))"
proof (intro conjI impI)
  show "decide (old_overall_status svc) (overall_status svc) = SUPPRESS \<longleftrightarrow>
      (old_overall_status svc, overall_status svc) \<in>
        {(ACKED, PASSING), (ACKED, ACKED), (PASSING, ACKED)}"
    by (cases "old_overall_status svc"; cases "overall_status svc")
       (simp_all add: decide_def mention_policy_def)
next
  assume "decide (old_overall_status svc) (overall_status svc) = SUPPRESS"
  then have "mention_policy (old_overall_status svc) (overall_status svc) = None"
    by (simp add: decide_def split: option.splits if_splits)
  then show "send_alert srv py jenkins svc users duty_officers w = Some (Inr (), w)"
    by (simp add: send_alert_def)
qed

theorem suppress_sends_nothing_witness:
  "decide (old_overall_status svc_acked) (overall_status svc_acked) = SUPPRESS
   \<and> send_alert srv_down py0 [] svc_acked [] [] w0 = Some (Inr (), w0)"
  using suppress_sends_nothing [of svc_acked srv_down py0 "[]" "[]" "[]" w0]
  by (simp add: svc_acked_def decide_def mention_policy_def)

section \<open>Escaping in the section blocks\<close>

lemma py_replace_char:
  "py_replace [c] new s = concat (map (\<lambda>x. if x = c then new else [x]) s)"
  by (induction s) auto

lemma check_block_text:
  "ebind (getitem (check_block jenkins chk) ''text'') (\<lambda>t. getitem t ''text'') =
     Inr (JStr (section_text chk))"
  by (simp add: check_block_def Let_def split: prod.splits)

text \<open>
  C9. The section block of a failing check carries the text
  \<^verbatim>\<open>*<link|name>* - `error`\<close> in which each character \<^verbatim>\<open>>\<close> of the check's name
  stands as backslash and \<^verbatim>\<open>>\<close>, each backtick of the last error stands as backslash
  and backtick, every other character of the two stands as itself, and a missing
  error stands as the empty string. The blocks of a message are the header
  followed by these section blocks, in the order of the failing checks.
\<close>

theorem section_text_escapes:
  "section_text chk =
     ''*<'' @ check_link chk @ ''|'' @
     concat (map (\<lambda>c. if c = CHR ''>'' then [CHR 0x5C, CHR ''>''] else [c]) (check_name chk)) @
     ''>* - '' @ [CHR 0x60] @
     concat (map (\<lambda>c. if c = CHR 0x60 then [CHR 0x5C, CHR 0x60] else [c])
       (case last_result chk of
          None \<Rightarrow> []
        | Some r \<Rightarrow> (case result_error r of None \<Rightarrow> [] | Some e \<Rightarrow> e))) @
     [CHR 0x60]
   \<and> ebind (getitem (check_block jenkins chk) ''text'') (\<lambda>t. getitem t ''text'') =
       Inr (JStr (section_text chk))
   \<and> take (Suc (length (all_failing_checks svc)))
       (compose_blocks py jenkins svc include_mentions user_ids missing_users) =
       header_block svc # map (check_block jenkins) (all_failing_checks svc)"
proof (intro conjI)
  show "section_text chk =
     ''*<'' @ check_link chk @ ''|'' @
     concat (map (\<lambda>c. if c = CHR ''>'' then [CHR 0x5C, CHR ''>''] else [c]) (check_name chk)) @
     ''>* - '' @ [CHR 0x60] @
     concat (map (\<lambda>c. if c = CHR 0x60 then [CHR 0x5C, CHR 0x60] else [c])
       (case last_result chk of
          None \<Rightarrow> []
        | Some r \<Rightarrow> (case result_error r of None \<Rightarrow> [] | Some e \<Rightarrow> e))) @
     [CHR 0x60]"
    by (simp add: section_text_def py_replace_char str_truthy_def Let_def
             split: option.splits)
next
  show "ebind (getitem (check_block jenkins chk) ''text'') (\<lambda>t. getitem t ''text'') =
       Inr (JStr (section_text chk))"
    by (rule check_block_text)
next
  show "take (Suc (length (all_failing_checks svc)))
       (compose_blocks py jenkins svc include_mentions user_ids missing_users) =
       header_block svc # map (check_block jenkins) (all_failing_checks svc)"
    by (simp add: compose_blocks_def)
qed

theorem section_text_escapes_witness:
  "section_text chk_escapes =
     ''*<http://localhost/check/1/|a'' @ [CHR 0x5C] @ ''>b>* - '' @
     [CHR 0x60, CHR ''x'', CHR 0x5C, CHR 0x60, CHR ''y'', CHR 0x60]"
  using section_text_escapes [of chk_escapes]
  by (simp add: chk_escapes_def)

section \<open>Membership listing and reconciliation\<close>

lemma readable_pageD:
  assumes "readable_page p"
  obtains ms c where "check_response p True = Inr ()" and "page_members p = Inr ms"
    and "list_all hashable ms" and "page_cursor p = Inr c"
proof -
  from assms obtain u c where "check_response p True = Inr u" "page_cursor p = Inr c"
    unfolding readable_page_def by (metis is_ok.elims(2))
  moreover from assms obtain ms where "page_members p = Inr ms" "list_all hashable ms"
    unfolding readable_page_def by (auto split: sum.splits)
  ultimately show ?thesis using that by simp
qed

lemma members_loop_pages:
  assumes "listing pages"
    and "serves srv (sent w) (page_requests url hs params pages) pages"
  shows "members_loop srv url hs params acc w =
     Some (Inr (acc @ concat (map page_items pages)),
           w\<lparr>sent := sent w @ page_requests url hs params pages\<rparr>)"
  using assms
proof (induction pages arbitrary: params acc w rule: listing.induct)
  case 1
  then show ?case by simp
next
  case (2 p)
  then have s: "srv (sent w @ [Get (Urljoin url ''conversations.members'') hs params]) = p"
    and r: "readable_page p" and n: "\<not> has_next p" by simp_all
  from r obtain ms c where pc: "check_response p True = Inr ()" "page_members p = Inr ms"
    "page_cursor p = Inr c" by (rule readable_pageD)
  with n have f: "\<not> truthy c" by (simp add: has_next_def)
  show ?case
    by (subst members_loop.simps) (simp add: send_def s pc f page_items_def)
next
  case (3 p q ps)
  let ?rq = "Get (Urljoin url ''conversations.members'') hs params"
  from 3 have s: "srv (sent w @ [?rq]) = p"
    and r: "readable_page p" and n: "has_next p" and l: "listing (q # ps)" by simp_all
  from r obtain ms c where pc: "check_response p True = Inr ()" "page_members p = Inr ms"
    "page_cursor p = Inr c" by (rule readable_pageD)
  with n have f: "truthy c" by (simp add: has_next_def)
  from 3(3) have sv: "serves srv (sent (w\<lparr>sent := sent w @ [?rq]\<rparr>))
       (page_requests url hs (dict_set params ''cursor'' c) (q # ps)) (q # ps)"
    using pc by (simp add: cursor_of_def)
  have ih: "members_loop srv url hs (dict_set params ''cursor'' c) (acc @ ms)
       (w\<lparr>sent := sent w @ [?rq]\<rparr>) =
     Some (Inr ((acc @ ms) @ concat (map page_items (q # ps))),
           (w\<lparr>sent := sent w @ [?rq]\<rparr>)\<lparr>sent := sent (w\<lparr>sent := sent w @ [?rq]\<rparr>) @
              page_requests url hs (dict_set params ''cursor'' c) (q # ps)\<rparr>)"
    by (rule "3.IH" [OF l sv])
  show ?case
    by (subst members_loop.simps) (simp add: send_def s pc f ih page_items_def cursor_of_def)
qed

lemma listing_hashable:
  "listing pages \<Longrightarrow> list_all hashable (concat (map page_items pages))"
proof (induction pages rule: listing.induct)
  case 1
  then show ?case by simp
next
  case (2 p)
  then have "readable_page p" by simp
  then obtain ms where "page_members p = Inr ms" "list_all hashable ms"
    by (rule readable_pageD)
  then show ?case by (simp add: page_items_def)
next
  case (3 p q ps)
  from "3.prems" have r: "readable_page p" and l: "listing (q # ps)" by simp_all
  from r obtain ms where "page_members p = Inr ms" "list_all hashable ms"
    by (rule readable_pageD)
  then have "list_all hashable (page_items p)" by (simp add: page_items_def)
  with "3.IH" [OF l] show ?case by simp
qed

lemma get_channel_members_pages:
  assumes "listing pages"
    and "serves srv (sent w) (page_requests url hs [(''channel'', JStr ch)] pages) pages"
  shows "get_channel_members srv url hs ch w =
     Some (Inr (set (concat (map members_of pages))),
           w\<lparr>sent := sent w @ page_requests url hs [(''channel'', JStr ch)] pages\<rparr>)"
proof -
  have "map py_key (concat (map page_items pages)) = concat (map members_of pages)"
    by (induction pages) (simp_all add: members_of_def)
  then have "py_set (concat (map page_items pages)) = Inr (set (concat (map members_of pages)))"
    using listing_hashable [OF assms(1)] by (simp add: py_set_def)
  then show ?thesis
    by (simp add: get_channel_members_def members_loop_pages [OF assms])
qed

lemma length_page_requests: "length (page_requests url hs params pages) = length pages"
  by (induction pages arbitrary: params) simp_all

lemma falsy_cursor_no_next:
  "page_cursor p = Inr c \<Longrightarrow> \<not> truthy c \<Longrightarrow> \<not> has_next p"
  by (simp add: has_next_def)

lemma cursor_absent_metadata:
  "json p = Some (JObj kvs) \<Longrightarrow> map_of kvs ''response_metadata'' = None \<Longrightarrow>
     page_cursor p = Inr JNull"
  by (simp add: page_cursor_def response_json_def)

lemma cursor_absent_field:
  "json p = Some (JObj kvs) \<Longrightarrow> map_of kvs ''response_metadata'' = Some (JObj m) \<Longrightarrow>
     map_of m ''next_cursor'' = None \<Longrightarrow> page_cursor p = Inr JNull"
  by (simp add: page_cursor_def response_json_def)

lemma cursor_empty_string:
  "json p = Some (JObj kvs) \<Longrightarrow> map_of kvs ''response_metadata'' = Some (JObj m) \<Longrightarrow>
     map_of m ''next_cursor'' = Some (JStr []) \<Longrightarrow> page_cursor p = Inr (JStr [])"
  by (simp add: page_cursor_def response_json_def)

lemma demo_pages:
  "listing [page1, page2]"
  "serves srv_demo [] (page_requests api auth [(''channel'', JStr ''C456'')] [page1, page2])
     [page1, page2]"
  by (simp_all add: readable_page_def has_next_def page1_def page2_def ok_body_def
        check_response_def raise_for_status_def response_json_def page_members_def
        page_cursor_def cursor_of_def srv_demo_def demo_answer_def)

text \<open>
  C5. When the server serves a listing of \<open>N\<close> pages, the loop returns after exactly
  \<open>N\<close> requests, hence after at most \<open>N + 1\<close>: the first request carries no cursor,
  each later one the cursor of the page before, and the result is the set of the
  members of all pages. A page ends the listing whenever its cursor is falsy, in
  particular when \<^verbatim>\<open>response_metadata\<close> is absent, when it has no \<^verbatim>\<open>next_cursor\<close>, and
  when \<^verbatim>\<open>next_cursor\<close> is the empty string.
\<close>

theorem pagination_terminates:
  assumes "listing pages"
    and "serves srv (sent w) (page_requests url hs [(''channel'', JStr ch)] pages) pages"
  shows "get_channel_members srv url hs ch w =
           Some (Inr (set (concat (map members_of pages))),
                 w\<lparr>sent := sent w @ page_requests url hs [(''channel'', JStr ch)] pages\<rparr>)
         \<and> length (page_requests url hs [(''channel'', JStr ch)] pages) = length pages
         \<and> length (page_requests url hs [(''channel'', JStr ch)] pages) \<le> length pages + 1
         \<and> (\<forall>c. page_cursor p = Inr c \<and> \<not> truthy c \<longrightarrow> \<not> has_next p)
         \<and> (json p = Some (JObj kvs) \<and> map_of kvs ''response_metadata'' = None \<longrightarrow>
              \<not> has_next p)
         \<and> (json p = Some (JObj kvs) \<and> map_of kvs ''response_metadata'' = Some (JObj m) \<and>
              map_of m ''next_cursor'' = None \<longrightarrow> \<not> has_next p)
         \<and> (json p = Some (JObj kvs) \<and> map_of kvs ''response_metadata'' = Some (JObj m) \<and>
              map_of m ''next_cursor'' = Some (JStr []) \<longrightarrow> \<not> has_next p)"
proof (intro conjI allI impI)
  show "get_channel_members srv url hs ch w =
           Some (Inr (set (concat (map members_of pages))),
                 w\<lparr>sent := sent w @ page_requests url hs [(''channel'', JStr ch)] pages\<rparr>)"
    by (rule get_channel_members_pages [OF assms])
next
  show "length (page_requests url hs [(''channel'', JStr ch)] pages) = length pages"
    by (rule length_page_requests)
next
  show "length (page_requests url hs [(''channel'', JStr ch)] pages) \<le> length pages + 1"
    by (simp add: length_page_requests)
next
  fix c assume "page_cursor p = Inr c \<and> \<not> truthy c"
  then show "\<not> has_next p" by (simp add: falsy_cursor_no_next)
next
  assume "json p = Some (JObj kvs) \<and> map_of kvs ''response_metadata'' = None"
  then have "page_cursor p = Inr JNull" by (simp add: cursor_absent_metadata)
  then show "\<not> has_next p" by (simp add: has_next_def)
next
  assume "json p = Some (JObj kvs) \<and> map_of kvs ''response_metadata'' = Some (JObj m) \<and>
              map_of m ''next_cursor'' = None"
  then have "page_cursor p = Inr JNull" by (simp add: cursor_absent_field)
  then show "\<not> has_next p" by (simp add: has_next_def)
next
  assume "json p = Some (JObj kvs) \<and> map_of kvs ''response_metadata'' = Some (JObj m) \<and>
              map_of m ''next_cursor'' = Some (JStr [])"
  then have "page_cursor p = Inr (JStr [])" by (simp add: cursor_empty_string)
  then show "\<not> has_next p" by (simp add: has_next_def)
qed

theorem pagination_terminates_witness:
  "get_channel_members srv_demo api auth ''C456'' w0 =
     Some (Inr {JStr ''U1'', JStr ''U2'', JStr ''U3''},
           \<lparr>sent = [Get (Urljoin api ''conversations.members'') auth [(''channel'', JStr ''C456'')],
                    Get (Urljoin api ''conversations.members'') auth
                      [(''channel'', JStr ''C456''), (''cursor'', JStr ''c1'')]],
            logged = []\<rparr>)
   \<and> \<not> has_next page2"
proof -
  have l: "listing [page1, page2]" by (rule demo_pages(1))
  have s: "serves srv_demo (sent w0)
      (page_requests api auth [(''channel'', JStr ''C456'')] [page1, page2]) [page1, page2]"
    using demo_pages(2) by (simp add: w0_def)
  have j: "json page2 = Some (JObj [(''ok'', JBool True), (''members'', JArr [JStr ''U3''])])"
    by (simp add: page2_def ok_body_def)
  have c: "cursor_of page1 = JStr ''c1''"
    by (simp add: cursor_of_def page_cursor_def response_json_def page1_def ok_body_def)
  have m: "members_of page1 = [JStr ''U1'', JStr ''U2'']" "members_of page2 = [JStr ''U3'']"
    by (simp_all add: members_of_def page_items_def page_members_def response_json_def page1_def page2_def
          ok_body_def)
  from pagination_terminates [OF l s, of page2
      "[(''ok'', JBool True), (''members'', JArr [JStr ''U3''])]"] j
  show ?thesis by (simp add: c m w0_def insert_commute)
qed


lemma str_items_map: "str_items vs = Inr ss \<Longrightarrow> map JStr ss = vs"
proof (induction vs arbitrary: ss rule: str_items.induct)
  case (2 s vs)
  then show ?case by (cases "str_items vs") auto
qed simp_all

lemma set_list_of_set: "set (list_of_set py elems) = set elems"
  by (simp add: list_of_set_def)

lemma distinct_list_of_set: "distinct (list_of_set py elems)"
  by (simp add: list_of_set_def)

lemma set_missing_ids:
  assumes "missing_ids py user_ids in_channel = Inr ids"
  shows "JStr ` set ids = {u \<in> set user_ids. py_key u \<notin> in_channel}"
proof -
  from assms obtain missing
    where m: "str_items (filter (\<lambda>u. py_key u \<notin> in_channel) user_ids) = Inr missing"
      and i: "ids = list_of_set py missing"
    by (cases "str_items (filter (\<lambda>u. py_key u \<notin> in_channel) user_ids)")
       (auto simp: missing_ids_def split: if_splits)
  have "JStr ` set ids = set (map JStr missing)" by (simp add: i set_list_of_set)
  also have "\<dots> = set (filter (\<lambda>u. py_key u \<notin> in_channel) user_ids)"
    by (simp only: str_items_map [OF m])
  finally show ?thesis by simp
qed

lemma distinct_missing_ids:
  "missing_ids py user_ids in_channel = Inr ids \<Longrightarrow> distinct ids"
  by (cases "str_items (filter (\<lambda>u. py_key u \<notin> in_channel) user_ids)")
     (auto simp: missing_ids_def distinct_list_of_set split: if_splits)

lemma missing_ids_reconciled:
  assumes "list_all hashable user_ids" and "\<forall>u \<in> set user_ids. py_key u \<in> in_channel"
  shows "missing_ids py user_ids in_channel = Inr []"
proof -
  from assms(2) have "filter (\<lambda>u. py_key u \<notin> in_channel) user_ids = []"
    by (simp add: filter_empty_conv)
  with assms(1) show ?thesis by (simp add: missing_ids_def list_of_set_def)
qed

lemma ensure_channel_members_empty:
  "ensure_channel_members srv py url hs ch [] w = Some (Inr (), w)"
  by (simp add: ensure_channel_members_def)

lemma ensure_channel_members_listed:
  assumes "user_ids \<noteq> []"
    and "get_channel_members srv url hs ch w = Some (Inr in_channel, w1)"
    and "missing_ids py user_ids in_channel = Inr ids"
  shows "ensure_channel_members srv py url hs ch user_ids w =
     Some (check_response
             (srv (sent w1 @ [PostJson (Urljoin url ''conversations.invite'') hs
                [(''channel'', JStr ch), (''users'', JStr (py_join '','' ids))]])) True,
           w1\<lparr>sent := sent w1 @ [PostJson (Urljoin url ''conversations.invite'') hs
                [(''channel'', JStr ch), (''users'', JStr (py_join '','' ids))]]\<rparr>)"
  using assms by (simp add: ensure_channel_members_def send_def)

lemma failing_listing:
  "get_channel_members (srv_failing ''conversations.members'' (http_failure 500)) api auth
       ''C456'' w0 =
       Some (Inl (HTTPError ''Server Error, response body: oops''),
         \<lparr>sent = [Get (Urljoin api ''conversations.members'') auth [(''channel'', JStr ''C456'')]],
          logged = []\<rparr>)"
  unfolding get_channel_members_def
  by (subst members_loop.simps)
     (simp add: send_def w0_def srv_failing_def api_def http_failure_def check_response_def
        raise_for_status_def)

lemma demo_members:
  "get_channel_members srv_demo api auth ''C456'' w0 =
     Some (Inr {JStr ''U1'', JStr ''U2'', JStr ''U3''},
           \<lparr>sent = [Get (Urljoin api ''conversations.members'') auth [(''channel'', JStr ''C456'')],
                    Get (Urljoin api ''conversations.members'') auth
                      [(''channel'', JStr ''C456''), (''cursor'', JStr ''c1'')]],
            logged = []\<rparr>)"
proof -
  have s: "serves srv_demo (sent w0)
      (page_requests api auth [(''channel'', JStr ''C456'')] [page1, page2]) [page1, page2]"
    using demo_pages(2) by (simp add: w0_def)
  have c: "cursor_of page1 = JStr ''c1''"
    by (simp add: cursor_of_def page_cursor_def response_json_def page1_def ok_body_def)
  have m: "members_of page1 = [JStr ''U1'', JStr ''U2'']" "members_of page2 = [JStr ''U3'']"
    by (simp_all add: members_of_def page_items_def page_members_def response_json_def
          page1_def page2_def ok_body_def)
  from get_channel_members_pages [OF demo_pages(1) s]
  show ?thesis by (simp add: c m w0_def insert_commute)
qed

lemma demo_invite:
  "check_response
     (srv_demo ([Get (Urljoin api ''conversations.members'') auth [(''channel'', JStr ''C456'')],
                 Get (Urljoin api ''conversations.members'') auth
                   [(''channel'', JStr ''C456''), (''cursor'', JStr ''c1'')]] @
                [PostJson (Urljoin api ''conversations.invite'') auth
                   [(''channel'', JStr ''C456''), (''users'', JStr ids)]])) True = Inr ()"
  by (simp add: srv_demo_def demo_answer_def api_def ok_body_def check_response_def
        raise_for_status_def response_json_def)

text \<open>
  C3. The code departs from the claim where the difference is empty. With an empty
  list of desired user IDs no request is sent. With a non-empty list, once the
  membership listing has returned the set of members, the invite request follows
  unconditionally: the user IDs it carries, each once and comma-joined in the order
  in which the interpreter enumerates the set, are exactly the desired IDs that are
  not members, and when every desired ID is already a member the request is sent
  all the same, with the empty string as its user list. So a second call on a
  reconciled channel issues an invite call, which the claim excludes.
\<close>

theorem ensure_channel_members_invites:
  "ensure_channel_members srv py url hs ch [] w = Some (Inr (), w)
   \<and> (user_ids \<noteq> [] \<and> get_channel_members srv url hs ch w = Some (Inr in_channel, w1)
        \<and> missing_ids py user_ids in_channel = Inr ids \<longrightarrow>
        ensure_channel_members srv py url hs ch user_ids w =
          Some (check_response
                  (srv (sent w1 @ [PostJson (Urljoin url ''conversations.invite'') hs
                     [(''channel'', JStr ch), (''users'', JStr (py_join '','' ids))]])) True,
                w1\<lparr>sent := sent w1 @ [PostJson (Urljoin url ''conversations.invite'') hs
                     [(''channel'', JStr ch), (''users'', JStr (py_join '','' ids))]]\<rparr>)
        \<and> JStr ` set ids = {u \<in> set user_ids. py_key u \<notin> in_channel}
        \<and> distinct ids)
   \<and> (user_ids \<noteq> [] \<and> get_channel_members srv url hs ch w = Some (Inr in_channel, w1)
        \<and> list_all hashable user_ids \<and> (\<forall>u \<in> set user_ids. py_key u \<in> in_channel) \<longrightarrow>
        ensure_channel_members srv py url hs ch user_ids w =
          Some (check_response
                  (srv (sent w1 @ [PostJson (Urljoin url ''conversations.invite'') hs
                     [(''channel'', JStr ch), (''users'', JStr [])]])) True,
                w1\<lparr>sent := sent w1 @ [PostJson (Urljoin url ''conversations.invite'') hs
                     [(''channel'', JStr ch), (''users'', JStr [])]]\<rparr>))"
proof (intro conjI impI)
  show "ensure_channel_members srv py url hs ch [] w = Some (Inr (), w)"
    by (rule ensure_channel_members_empty)
next
  assume a: "user_ids \<noteq> [] \<and> get_channel_members srv url hs ch w = Some (Inr in_channel, w1)
        \<and> missing_ids py user_ids in_channel = Inr ids"
  then show "ensure_channel_members srv py url hs ch user_ids w =
          Some (check_response
                  (srv (sent w1 @ [PostJson (Urljoin url ''conversations.invite'') hs
                     [(''channel'', JStr ch), (''users'', JStr (py_join '','' ids))]])) True,
                w1\<lparr>sent := sent w1 @ [PostJson (Urljoin url ''conversations.invite'') hs
                     [(''channel'', JStr ch), (''users'', JStr (py_join '','' ids))]]\<rparr>)"
    by (simp add: ensure_channel_members_listed)
  from a show "JStr ` set ids = {u \<in> set user_ids. py_key u \<notin> in_channel}"
    using set_missing_ids [of py user_ids in_channel ids] by simp
  from a show "distinct ids" using distinct_missing_ids [of py user_ids in_channel ids] by simp
next
  assume a: "user_ids \<noteq> [] \<and> get_channel_members srv url hs ch w = Some (Inr in_channel, w1)
        \<and> list_all hashable user_ids \<and> (\<forall>u \<in> set user_ids. py_key u \<in> in_channel)"
  then have "missing_ids py user_ids in_channel = Inr []"
    by (simp add: missing_ids_reconciled)
  with a ensure_channel_members_listed [of user_ids srv url hs ch w in_channel w1 py "[]"]
  show "ensure_channel_members srv py url hs ch user_ids w =
          Some (check_response
                  (srv (sent w1 @ [PostJson (Urljoin url ''conversations.invite'') hs
                     [(''channel'', JStr ch), (''users'', JStr [])]])) True,
                w1\<lparr>sent := sent w1 @ [PostJson (Urljoin url ''conversations.invite'') hs
                     [(''channel'', JStr ch), (''users'', JStr [])]]\<rparr>)"
    by simp
qed

theorem ensure_channel_members_invites_witness:
  "ensure_channel_members srv_demo py0 api auth ''C456'' [] w0 = Some (Inr (), w0)
   \<and> ensure_channel_members srv_demo py0 api auth ''C456'' [JStr ''U9'', JStr ''U1'', JStr ''U9''] w0 =
       Some (Inr (),
         \<lparr>sent = [Get (Urljoin api ''conversations.members'') auth [(''channel'', JStr ''C456'')],
                  Get (Urljoin api ''conversations.members'') auth
                    [(''channel'', JStr ''C456''), (''cursor'', JStr ''c1'')],
                  PostJson (Urljoin api ''conversations.invite'') auth
                    [(''channel'', JStr ''C456''), (''users'', JStr ''U9'')]],
          logged = []\<rparr>)
   \<and> ensure_channel_members srv_demo py0 api auth ''C456'' [JStr ''U1''] w0 =
       Some (Inr (),
         \<lparr>sent = [Get (Urljoin api ''conversations.members'') auth [(''channel'', JStr ''C456'')],
                  Get (Urljoin api ''conversations.members'') auth
                    [(''channel'', JStr ''C456''), (''cursor'', JStr ''c1'')],
                  PostJson (Urljoin api ''conversations.invite'') auth
                    [(''channel'', JStr ''C456''), (''users'', JStr [])]],
          logged = []\<rparr>)"
proof -
  have m: "missing_ids py0 [JStr ''U9'', JStr ''U1'', JStr ''U9'']
             {JStr ''U1'', JStr ''U2'', JStr ''U3''} = Inr [''U9'']"
    by (simp add: missing_ids_def list_of_set_def py0_def)
  have a1: "ensure_channel_members srv_demo py0 api auth ''C456'' [] w0 = Some (Inr (), w0)"
    using ensure_channel_members_invites [where srv = srv_demo and py = py0 and url = api
        and hs = auth and ch = "''C456''" and w = w0]
    by simp
  have a2: "ensure_channel_members srv_demo py0 api auth ''C456''
        [JStr ''U9'', JStr ''U1'', JStr ''U9''] w0 =
       Some (Inr (),
         \<lparr>sent = [Get (Urljoin api ''conversations.members'') auth [(''channel'', JStr ''C456'')],
                  Get (Urljoin api ''conversations.members'') auth
                    [(''channel'', JStr ''C456''), (''cursor'', JStr ''c1'')],
                  PostJson (Urljoin api ''conversations.invite'') auth
                    [(''channel'', JStr ''C456''), (''users'', JStr ''U9'')]],
          logged = []\<rparr>)"
    using ensure_channel_members_invites [where srv = srv_demo and py = py0 and url = api
        and hs = auth and ch = "''C456''" and w = w0
        and user_ids = "[JStr ''U9'', JStr ''U1'', JStr ''U9'']"
        and in_channel = "{JStr ''U1'', JStr ''U2'', JStr ''U3''}" and ids = "[''U9'']"]
      demo_members m demo_invite [of "''U9''"]
    by simp
  have a3: "ensure_channel_members srv_demo py0 api auth ''C456'' [JStr ''U1''] w0 =
       Some (Inr (),
         \<lparr>sent = [Get (Urljoin api ''conversations.members'') auth [(''channel'', JStr ''C456'')],
                  Get (Urljoin api ''conversations.members'') auth
                    [(''channel'', JStr ''C456''), (''cursor'', JStr ''c1'')],
                  PostJson (Urljoin api ''conversations.invite'') auth
                    [(''channel'', JStr ''C456''), (''users'', JStr [])]],
          logged = []\<rparr>)"
    using ensure_channel_members_invites [where srv = srv_demo and py = py0 and url = api
        and hs = auth and ch = "''C456''" and w = w0
        and user_ids = "[JStr ''U1'']"
        and in_channel = "{JStr ''U1'', JStr ''U2'', JStr ''U3''}"]
      demo_members demo_invite [of "[]"]
    by simp
  show ?thesis by (intro conjI) (fact a1 a2 a3)+
qed


section \<open>The dispatcher\<close>

subsection \<open>Image uploads\<close>

lemma upload_file_world:
  "snd (upload_file srv url hs file_name img ch ts t w) =
     w\<lparr>sent := sent w @ [PostFiles (Urljoin url ''files.upload'') hs
        [(''filename'', JStr file_name), (''channels'', JStr ch), (''thread_ts'', ts)]
        [(''file'', img)] t]\<rparr>"
  by (simp add: upload_file_def send_def)

lemma upload_images_effect:
  "\<exists>rqs. snd (upload_images srv url hs ch ts cs w) = w\<lparr>sent := sent w @ rqs\<rparr>
     \<and> prefix rqs (image_uploads url hs ch ts cs)
     \<and> (fst (upload_images srv url hs ch ts cs w) = Inr () \<longrightarrow> rqs = image_uploads url hs ch ts cs)"
proof (induction cs arbitrary: w)
  case Nil
  show ?case by (simp add: image_uploads_def)
next
  case (Cons c cs)
  show ?case
  proof (cases "status_image c")
    case (Inl e)
    then show ?thesis by (intro exI [of _ "[]"]) simp
  next
    case (Inr oi)
    show ?thesis
    proof (cases oi)
      case None
      with Inr Cons.IH [of w] show ?thesis by (simp add: image_uploads_def)
    next
      case (Some img)
      let ?rq = "PostFiles (Urljoin url ''files.upload'') hs
        [(''filename'', JStr (check_name c @ ''.png'')), (''channels'', JStr ch), (''thread_ts'', ts)]
        [(''file'', img)] 30"
      let ?w1 = "w\<lparr>sent := sent w @ [?rq]\<rparr>"
      obtain r where u: "upload_file srv url hs (check_name c @ ''.png'') img ch ts 30 w = (r, ?w1)"
        using upload_file_world [of srv url hs "check_name c @ ''.png''" img ch ts 30 w]
        by (metis prod.collapse)
      have iu: "image_uploads url hs ch ts (c # cs) = ?rq # image_uploads url hs ch ts cs"
        using Inr Some by (simp add: image_uploads_def)
      show ?thesis
      proof (cases r)
        case (Inl e)
        with Inr Some u iu show ?thesis by (intro exI [of _ "[?rq]"]) simp
      next
        case r: (Inr f)
        from Cons.IH [of ?w1] obtain rqs where
          i: "snd (upload_images srv url hs ch ts cs ?w1) = ?w1\<lparr>sent := sent ?w1 @ rqs\<rparr>"
             "prefix rqs (image_uploads url hs ch ts cs)"
             "fst (upload_images srv url hs ch ts cs ?w1) = Inr () \<longrightarrow>
                rqs = image_uploads url hs ch ts cs"
          by blast
        with Inr Some u iu r show ?thesis by (intro exI [of _ "?rq # rqs"]) simp
      qed
    qed
  qed
qed

lemma try_upload_images_not_caught:
  "fst (try_upload_images srv url hs ch ts cs w) = Inl e \<Longrightarrow> \<not> caught e"
  by (auto simp: try_upload_images_def split: prod.splits sum.splits if_splits)

lemma try_upload_images_swallows:
  assumes "fst (upload_images srv url hs ch ts (take 5 cs) w) = Inl e" and "caught e"
  shows "try_upload_images srv url hs ch ts cs w =
     (Inr (), write_log (LogException ''Failed to get/upload images to channel ID %s: %s''
                 [AStr ch, AErr e]) (snd (upload_images srv url hs ch ts (take 5 cs) w)))"
  using assms
  by (cases "upload_images srv url hs ch ts (take 5 cs) w") (simp add: try_upload_images_def)

lemma try_upload_images_ok:
  assumes "fst (upload_images srv url hs ch ts (take 5 cs) w) = Inr ()"
  shows "try_upload_images srv url hs ch ts cs w =
     (Inr (), snd (upload_images srv url hs ch ts (take 5 cs) w))"
  using assms
  by (cases "upload_images srv url hs ch ts (take 5 cs) w") (simp add: try_upload_images_def)

lemma try_upload_images_raises:
  assumes "fst (upload_images srv url hs ch ts (take 5 cs) w) = Inl e" and "\<not> caught e"
  shows "try_upload_images srv url hs ch ts cs w =
     (Inl e, snd (upload_images srv url hs ch ts (take 5 cs) w))"
  using assms
  by (cases "upload_images srv url hs ch ts (take 5 cs) w") (simp add: try_upload_images_def)

lemma try_upload_images_sent:
  "sent (snd (try_upload_images srv url hs ch ts cs w)) =
     sent (snd (upload_images srv url hs ch ts (take 5 cs) w))"
  by (simp add: try_upload_images_def write_log_def split: prod.splits sum.splits)

lemma send_alert_posted:
  assumes "mention_policy (old_overall_status svc) (overall_status svc) = Some m"
    and "get_slack_api_for_service svc = Inr (url, hs, ch)"
    and "prepare srv py jenkins svc (users @ duty_officers) m url hs ch w = Some (Inr blocks, w3)"
    and "post_message srv url hs (service_name svc @ '' is '' @ status_str (overall_status svc))
           blocks ch w3 = (Inr ts, w4)"
  shows "send_alert srv py jenkins svc users duty_officers w =
     Some (try_upload_images srv url hs ch ts (all_failing_checks svc) w4)"
  using assms by (simp add: send_alert_def try_post_def)

text \<open>
  C8 (as amended). Once the message is posted with timestamp \<open>ts\<close>, \<open>send_alert\<close> returns, and the
  requests it sends after the post are a prefix of the upload requests for those of
  the first five failing checks that have an image, in the order of the list and as
  replies to \<open>ts\<close>: no check beyond the fifth is uploaded. When nothing fails they are
  all of these requests. When fetching or uploading an image raises a transport or
  an API error, the error is logged and \<open>send_alert\<close> returns normally; no such error
  leaves \<open>send_alert\<close> from this step. An exception of another class raised in this
  step is not caught.
\<close>

theorem images_first_five:
  assumes "mention_policy (old_overall_status svc) (overall_status svc) = Some m"
    and "get_slack_api_for_service svc = Inr (url, hs, ch)"
    and "prepare srv py jenkins svc (users @ duty_officers) m url hs ch w = Some (Inr blocks, w3)"
    and "post_message srv url hs (service_name svc @ '' is '' @ status_str (overall_status svc))
           blocks ch w3 = (Inr ts, w4)"
  shows "\<exists>r w5 rqs.
           send_alert srv py jenkins svc users duty_officers w = Some (r, w5)
         \<and> sent w5 = sent (snd (upload_images srv url hs ch ts (take 5 (all_failing_checks svc)) w4))
         \<and> sent w5 = sent w4 @ rqs
         \<and> prefix rqs (image_uploads url hs ch ts (take 5 (all_failing_checks svc)))
         \<and> (\<forall>e. r = Inl e \<longrightarrow> \<not> caught e)
         \<and> (\<forall>e. fst (upload_images srv url hs ch ts (take 5 (all_failing_checks svc)) w4) = Inl e
                \<and> caught e \<longrightarrow>
                r = Inr () \<and>
                logged w5 = logged w4 @
                  [LogException ''Failed to get/upload images to channel ID %s: %s''
                     [AStr ch, AErr e]])
         \<and> (fst (upload_images srv url hs ch ts (take 5 (all_failing_checks svc)) w4) = Inr () \<longrightarrow>
                r = Inr () \<and> logged w5 = logged w4 \<and>
                rqs = image_uploads url hs ch ts (take 5 (all_failing_checks svc)))
         \<and> (\<forall>e. fst (upload_images srv url hs ch ts (take 5 (all_failing_checks svc)) w4) = Inl e
                \<and> \<not> caught e \<longrightarrow>
                r = Inl e \<and> logged w5 = logged w4)"
proof -
  let ?cs = "all_failing_checks svc"
  let ?U = "upload_images srv url hs ch ts (take 5 ?cs) w4"
  let ?T = "try_upload_images srv url hs ch ts ?cs w4"
  obtain rqs where
    e: "snd ?U = w4\<lparr>sent := sent w4 @ rqs\<rparr>"
       "prefix rqs (image_uploads url hs ch ts (take 5 ?cs))"
       "fst ?U = Inr () \<longrightarrow> rqs = image_uploads url hs ch ts (take 5 ?cs)"
    using upload_images_effect [of srv url hs ch ts "take 5 ?cs" w4] by blast
  have s: "send_alert srv py jenkins svc users duty_officers w = Some (fst ?T, snd ?T)"
    using send_alert_posted [OF assms] by simp
  have 1: "sent (snd ?T) = sent w4 @ rqs"
    using e(1) by (simp add: try_upload_images_sent)
  have 2: "\<forall>e. fst ?T = Inl e \<longrightarrow> \<not> caught e"
    using try_upload_images_not_caught by blast
  have 3: "\<forall>e. fst ?U = Inl e \<and> caught e \<longrightarrow>
             fst ?T = Inr () \<and>
             logged (snd ?T) = logged w4 @
               [LogException ''Failed to get/upload images to channel ID %s: %s'' [AStr ch, AErr e]]"
    using e(1) by (auto simp: try_upload_images_swallows write_log_def)
  have 4: "fst ?U = Inr () \<longrightarrow>
             fst ?T = Inr () \<and> logged (snd ?T) = logged w4 \<and>
             rqs = image_uploads url hs ch ts (take 5 ?cs)"
    using e(1,3) by (auto simp: try_upload_images_ok)
  have 0: "sent (snd ?T) = sent (snd ?U)"
    by (rule try_upload_images_sent)
  have 5: "\<forall>e. fst ?U = Inl e \<and> \<not> caught e \<longrightarrow> fst ?T = Inl e \<and> logged (snd ?T) = logged w4"
    using e(1) by (auto simp: try_upload_images_raises)
  from s 0 1 e(2) 2 3 4 5 show ?thesis by blast
qed


lemma sample_policy:
  "mention_policy (old_overall_status svc_six) (overall_status svc_six) = Some True"
  by (simp add: svc_six_def mention_policy_def)

lemma sample_api: "get_slack_api_for_service svc_six = Inr (api, auth, ''C456'')"
  by (simp add: svc_six_def slack_cfg_def get_slack_api_for_service_def str_truthy_def api_def
        auth_def)

lemma check_response_ok_body: "check_response (ok_body kvs) True = Inr ()"
  by (simp add: ok_body_def check_response_def raise_for_status_def response_json_def)

lemma try_join_ok:
  assumes "srv (sent w @ [PostJson (Urljoin url ''conversations.join'') hs [(''channel'', JStr ch)]]) =
             ok_body []"
  shows "try_join srv url hs ch w =
     (Inr (), w\<lparr>sent := sent w @
        [PostJson (Urljoin url ''conversations.join'') hs [(''channel'', JStr ch)]]\<rparr>)"
  using assms by (simp add: try_join_def join_channel_def send_def check_response_ok_body)

lemma sample_prepare:
  assumes "srv [join_rq] = ok_body []"
  shows "prepare srv py0 [] svc_six ([] @ []) True api auth ''C456'' w0 =
     Some (Inr blocks_six, \<lparr>sent = [join_rq], logged = []\<rparr>)"
proof -
  have "try_join srv api auth ''C456'' w0 = (Inr (), \<lparr>sent = [join_rq], logged = []\<rparr>)"
    using try_join_ok [of srv w0 api auth "''C456''"] assms by (simp add: w0_def join_rq_def)
  then show ?thesis
    by (simp add: prepare_def try_ensure_members_def ensure_channel_members_def blocks_six_def)
qed

lemma sample_post:
  assumes "srv [join_rq, post_rq svc_six blocks_six] = ok_body [(''ts'', JStr ''1700000000.000100'')]"
  shows "post_message srv api auth (service_name svc_six @ '' is '' @ status_str (overall_status svc_six))
           blocks_six ''C456'' \<lparr>sent = [join_rq], logged = []\<rparr> =
     (Inr (JStr ''1700000000.000100''), posted)"
  using assms
  by (simp add: post_message_def send_def post_rq_def posted_def check_response_ok_body)
     (simp add: ok_body_def response_json_def)

lemma demo_answers:
  "srv_demo [join_rq] = ok_body []"
  "srv_demo [join_rq, post_rq svc_six blocks_six] = ok_body [(''ts'', JStr ''1700000000.000100'')]"
  by (simp_all add: srv_demo_def demo_answer_def join_rq_def post_rq_def api_def)

lemma upload_failing_answers:
  "srv_failing ''files.upload'' r [join_rq] = ok_body []"
  "srv_failing ''files.upload'' r [join_rq, post_rq svc_six blocks_six] =
     ok_body [(''ts'', JStr ''1700000000.000100'')]"
  by (simp_all add: srv_failing_def demo_answer_def join_rq_def post_rq_def api_def)

lemma first_five:
  "take 5 (all_failing_checks svc_six) =
     [plain_check ''c1'' (Inr (Some ''png1'')), plain_check ''c2'' (Inr None),
      plain_check ''c3'' (Inr (Some ''png3'')), plain_check ''c4'' (Inr None),
      plain_check ''c5'' (Inr None)]"
  by (simp add: svc_six_def)

lemma demo_uploads:
  "upload_images srv_demo api auth ''C456'' (JStr ''1700000000.000100'')
     (take 5 (all_failing_checks svc_six)) posted =
   (Inr (), \<lparr>sent = [join_rq, post_rq svc_six blocks_six, upload_rq ''c1'' ''png1'',
                      upload_rq ''c3'' ''png3''], logged = []\<rparr>)"
  unfolding first_five
  by (simp add: plain_check_def posted_def upload_file_def send_def srv_demo_def
        demo_answer_def upload_rq_def check_response_def raise_for_status_def ok_body_def
        response_json_def api_def)

lemma failing_uploads:
  "upload_images (srv_failing ''files.upload'' (http_failure 500)) api auth ''C456''
     (JStr ''1700000000.000100'') (take 5 (all_failing_checks svc_six)) posted =
   (Inl (HTTPError ''Server Error, response body: oops''),
    \<lparr>sent = [join_rq, post_rq svc_six blocks_six, upload_rq ''c1'' ''png1''], logged = []\<rparr>)"
  unfolding first_five
  by (simp add: plain_check_def posted_def upload_file_def send_def srv_failing_def
        upload_rq_def api_def http_failure_def check_response_def raise_for_status_def)

theorem images_first_five_witness:
  "send_alert srv_demo py0 [] svc_six [] [] w0 =
     Some (Inr (),
       \<lparr>sent = [join_rq, post_rq svc_six blocks_six, upload_rq ''c1'' ''png1'',
                upload_rq ''c3'' ''png3''],
        logged = []\<rparr>)
   \<and> send_alert (srv_failing ''files.upload'' (http_failure 500)) py0 [] svc_six [] [] w0 =
       Some (Inr (),
         \<lparr>sent = [join_rq, post_rq svc_six blocks_six, upload_rq ''c1'' ''png1''],
          logged = [LogException ''Failed to get/upload images to channel ID %s: %s''
                      [AStr ''C456'', AErr (HTTPError ''Server Error, response body: oops'')]]\<rparr>)"
proof
  let ?S = srv_demo
  obtain r w5 where
    a: "send_alert ?S py0 [] svc_six [] [] w0 = Some (r, w5)"
    and b: "sent w5 = sent (snd (upload_images ?S api auth ''C456'' (JStr ''1700000000.000100'')
              (take 5 (all_failing_checks svc_six)) posted))"
    and c: "fst (upload_images ?S api auth ''C456'' (JStr ''1700000000.000100'')
              (take 5 (all_failing_checks svc_six)) posted) = Inr () \<longrightarrow>
            r = Inr () \<and> logged w5 = logged posted"
    using images_first_five [OF sample_policy sample_api
        sample_prepare [of srv_demo, OF demo_answers(1)]
        sample_post [of srv_demo, OF demo_answers(2)]]
    by blast
  from b c have "r = Inr ()" "sent w5 = [join_rq, post_rq svc_six blocks_six,
      upload_rq ''c1'' ''png1'', upload_rq ''c3'' ''png3'']" "logged w5 = []"
    unfolding demo_uploads by (simp_all add: posted_def)
  with a show "send_alert ?S py0 [] svc_six [] [] w0 =
     Some (Inr (),
       \<lparr>sent = [join_rq, post_rq svc_six blocks_six, upload_rq ''c1'' ''png1'',
                upload_rq ''c3'' ''png3''],
        logged = []\<rparr>)"
    by (cases w5) simp
next
  let ?S = "srv_failing ''files.upload'' (http_failure 500)"
  let ?e = "HTTPError ''Server Error, response body: oops''"
  obtain r w5 where
    a: "send_alert ?S py0 [] svc_six [] [] w0 = Some (r, w5)"
    and b: "sent w5 = sent (snd (upload_images ?S api auth ''C456'' (JStr ''1700000000.000100'')
              (take 5 (all_failing_checks svc_six)) posted))"
    and c: "\<forall>e. fst (upload_images ?S api auth ''C456'' (JStr ''1700000000.000100'')
              (take 5 (all_failing_checks svc_six)) posted) = Inl e \<and> caught e \<longrightarrow>
            r = Inr () \<and> logged w5 = logged posted @
              [LogException ''Failed to get/upload images to channel ID %s: %s''
                 [AStr ''C456'', AErr e]]"
    using images_first_five [OF sample_policy sample_api
        sample_prepare [of ?S, OF upload_failing_answers(1)]
        sample_post [of ?S, OF upload_failing_answers(2)]]
    by blast
  have "caught ?e" by (simp add: caught_def)
  with b c have "r = Inr ()" "sent w5 = [join_rq, post_rq svc_six blocks_six,
      upload_rq ''c1'' ''png1'']"
    "logged w5 = [LogException ''Failed to get/upload images to channel ID %s: %s''
                 [AStr ''C456'', AErr ?e]]"
    unfolding failing_uploads by (simp_all add: posted_def)
  with a show "send_alert ?S py0 [] svc_six [] [] w0 =
       Some (Inr (),
         \<lparr>sent = [join_rq, post_rq svc_six blocks_six, upload_rq ''c1'' ''png1''],
          logged = [LogException ''Failed to get/upload images to channel ID %s: %s''
                      [AStr ''C456'', AErr ?e]]\<rparr>)"
    by (cases w5) simp
qed


lemma fileless_uploads:
  "upload_images (srv_failing ''files.upload'' (ok_body [])) api auth ''C456''
     (JStr ''1700000000.000100'') (take 5 (all_failing_checks svc_six)) posted =
   (Inl (KeyError ''file''),
    \<lparr>sent = [join_rq, post_rq svc_six blocks_six, upload_rq ''c1'' ''png1''], logged = []\<rparr>)"
  unfolding first_five
  by (simp add: plain_check_def posted_def upload_file_def send_def srv_failing_def
        upload_rq_def api_def ok_body_def check_response_def raise_for_status_def
        response_json_def)

text \<open>
  C8 as stated fails on its last clause: the upload is answered with status 200 and
  \<open>ok = true\<close> but without the \<^verbatim>\<open>file\<close> object, line 196 raises \<^verbatim>\<open>KeyError\<close>, which the
  \<^verbatim>\<open>except\<close> clause of line 388 does not name: \<open>send_alert\<close> does not return normally
  and nothing is logged.
\<close>

theorem upload_key_error_counterexample:
  "send_alert (srv_failing ''files.upload'' (ok_body [])) py0 [] svc_six [] [] w0 =
     Some (Inl (KeyError ''file''),
       \<lparr>sent = [join_rq, post_rq svc_six blocks_six, upload_rq ''c1'' ''png1''],
        logged = []\<rparr>)"
proof -
  let ?S = "srv_failing ''files.upload'' (ok_body [])"
  have "send_alert ?S py0 [] svc_six [] [] w0 =
      Some (try_upload_images ?S api auth ''C456'' (JStr ''1700000000.000100'')
              (all_failing_checks svc_six) posted)"
    by (rule send_alert_posted [OF sample_policy sample_api
          sample_prepare [of ?S, OF upload_failing_answers(1)]
          sample_post [of ?S, OF upload_failing_answers(2)]])
  then show ?thesis
    by (simp add: try_upload_images_def fileless_uploads caught_def)
qed

subsection \<open>Which errors leave the dispatcher\<close>

lemma error_type_not_caught: "error_type e = Inl a \<Longrightarrow> \<not> caught a"
  by (cases e) (auto simp: caught_def)

lemma try_join_not_caught: "try_join srv url hs ch w = (Inl e, w1) \<Longrightarrow> \<not> caught e"
  by (auto simp: try_join_def split: prod.splits sum.splits if_splits)

lemma map_users_not_caught:
  "map_users srv url hs users user_ids missing_users w = (Inl e, w1) \<Longrightarrow> \<not> caught e"
proof (induction users arbitrary: user_ids missing_users w)
  case Nil
  then show ?case by simp
next
  case (Cons usr users)
  obtain r w' where c: "cabot_user_to_slack_user_id srv url hs usr w = (r, w')"
    by (cases "cabot_user_to_slack_user_id srv url hs usr w")
  show ?case
  proof (cases r)
    case (Inr user_id)
    with Cons.prems c show ?thesis by (auto dest: Cons.IH)
  next
    case (Inl e')
    with Cons.prems c show ?thesis
      by (auto dest: Cons.IH error_type_not_caught split: if_splits sum.splits)
  qed
qed

lemma try_ensure_members_not_caught:
  "try_ensure_members srv py url hs ch user_ids w = Some (Inl e, w1) \<Longrightarrow> \<not> caught e"
  by (auto simp: try_ensure_members_def split: option.splits prod.splits sum.splits if_splits)

lemma prepare_not_caught:
  "prepare srv py jenkins svc users m url hs ch w = Some (Inl e, w1) \<Longrightarrow> \<not> caught e"
  by (auto simp: prepare_def split: option.splits prod.splits sum.splits
        dest: try_join_not_caught map_users_not_caught try_ensure_members_not_caught)

lemma try_post_caught:
  assumes "try_post srv url hs txt blocks ch w = (Inl e, w1)" and "caught e"
  shows "logged w1 \<noteq> [] \<and>
     last (logged w1) =
       LogException ''Error posting message to Slack channel %s: %s'' [AStr ch, AErr e]"
  using assms
  by (auto simp: try_post_def write_log_def split: prod.splits sum.splits if_splits)

lemma send_alert_caught_is_post:
  assumes "send_alert srv py jenkins svc users duty_officers w = Some (Inl e, w')" and "caught e"
  shows "\<exists>ch. logged w' \<noteq> [] \<and>
     last (logged w') =
       LogException ''Error posting message to Slack channel %s: %s'' [AStr ch, AErr e]"
proof (cases "mention_policy (old_overall_status svc) (overall_status svc)")
  case None
  with assms show ?thesis by (simp add: send_alert_def)
next
  case (Some m)
  show ?thesis
  proof (cases "get_slack_api_for_service svc")
    case (Inl e')
    with Some assms have "e = e'" by (simp add: send_alert_def)
    with Inl assms(2) show ?thesis
      by (auto simp: get_slack_api_for_service_def caught_def Let_def
            split: option.splits if_splits)
  next
    case (Inr cfg)
    obtain url hs ch where cfg: "cfg = (url, hs, ch)" by (cases cfg)
    show ?thesis
    proof (cases "prepare srv py jenkins svc (users @ duty_officers) m url hs ch w")
      case None
      with Some Inr cfg assms show ?thesis by (simp add: send_alert_def)
    next
      case p: (Some rw)
      obtain r w3 where rw: "rw = (r, w3)" by (cases rw)
      show ?thesis
      proof (cases r)
        case (Inl e')
        with Some Inr cfg p rw assms have "e = e'" by (simp add: send_alert_def)
        with Inl p rw assms(2) show ?thesis by (auto dest: prepare_not_caught)
      next
        case blocks: (Inr blocks)
        obtain rp w4 where tp: "try_post srv url hs
            (service_name svc @ '' is '' @ status_str (overall_status svc)) blocks ch w3 = (rp, w4)"
          by (cases "try_post srv url hs
            (service_name svc @ '' is '' @ status_str (overall_status svc)) blocks ch w3")
        show ?thesis
        proof (cases rp)
          case (Inl e')
          with Some Inr cfg p rw blocks tp assms(1) have "e = e'" "w' = w4"
            by (simp_all add: send_alert_def)
          with Inl tp assms(2) try_post_caught show ?thesis by blast
        next
          case ts: (Inr ts)
          with Some Inr cfg p rw blocks tp assms(1)
          have "try_upload_images srv url hs ch ts (all_failing_checks svc) w4 = (Inl e, w')"
            by (simp add: send_alert_def)
          then have "\<not> caught e" using try_upload_images_not_caught by (metis fst_conv)
          with assms(2) show ?thesis by simp
        qed
      qed
    qed
  qed
qed

lemma send_alert_post_fails:
  assumes "mention_policy (old_overall_status svc) (overall_status svc) = Some m"
    and "get_slack_api_for_service svc = Inr (url, hs, ch)"
    and "prepare srv py jenkins svc (users @ duty_officers) m url hs ch w = Some (Inr blocks, w3)"
    and "post_message srv url hs (service_name svc @ '' is '' @ status_str (overall_status svc))
           blocks ch w3 = (Inl e, w4)"
    and "caught e"
  shows "send_alert srv py jenkins svc users duty_officers w =
     Some (Inl e, write_log (LogException ''Error posting message to Slack channel %s: %s''
                    [AStr ch, AErr e]) w4)"
  using assms by (simp add: send_alert_def try_post_def)

lemma try_join_swallows:
  assumes "join_channel srv url hs ch w = (Inl e, w1)" and "caught e"
  shows "try_join srv url hs ch w =
     (Inr (), if error_type e = Inr (JStr ''method_not_supported_for_channel_type'') then w1
              else write_log (LogWarning ''Could not join channel %s: %s.'' [AStr ch, AErr e]) w1)"
  using assms by (cases e) (simp_all add: try_join_def caught_def)

lemma map_users_api_error:
  assumes "cabot_user_to_slack_user_id srv url hs usr w = (Inl (SlackAPIError t es), w1)"
  shows "map_users srv url hs (usr # users) user_ids missing_users w =
     map_users srv url hs users user_ids (missing_users @ [usr])
       (if t = JStr ''users_not_found'' then w1
        else write_log (LogException
               ''Failed to find Slack user for Cabot user %s, got unexpected error %s.''
               [AUser usr, AVal t]) w1)"
  using assms by (simp add: caught_def)

lemma map_users_http_error:
  assumes "cabot_user_to_slack_user_id srv url hs usr w = (Inl (HTTPError msg), w1)"
  shows "map_users srv url hs (usr # users) user_ids missing_users w =
     (Inl (AttributeError ''error_type''), w1)"
  using assms by (simp add: caught_def)

lemma try_ensure_members_swallows:
  assumes "ensure_channel_members srv py url hs ch user_ids w = Some (Inl e, w1)" and "caught e"
  shows "try_ensure_members srv py url hs ch user_ids w =
     Some (Inr (), write_log (LogException ''Failed to add users to channel %s: %s''
                     [AStr ch, AErr e]) w1)"
  using assms by (simp add: try_ensure_members_def)


lemma post_failing_answers:
  "srv_failing ''chat.postMessage'' r [join_rq] = ok_body []"
  "srv_failing ''chat.postMessage'' r [join_rq, post_rq svc_six blocks_six] = r"
  by (simp_all add: srv_failing_def demo_answer_def join_rq_def post_rq_def api_def)

lemma failing_post:
  "post_message (srv_failing ''chat.postMessage'' (http_failure 500)) api auth
     (service_name svc_six @ '' is '' @ status_str (overall_status svc_six))
     blocks_six ''C456'' \<lparr>sent = [join_rq], logged = []\<rparr> =
   (Inl (HTTPError ''Server Error, response body: oops''), posted)"
  by (simp add: post_message_def send_def post_rq_def posted_def svc_six_def srv_failing_def
        http_failure_def check_response_def raise_for_status_def)

lemma failing_join:
  "join_channel (srv_failing ''conversations.join'' (api_error t)) api auth ''C456'' w0 =
     (Inl (SlackAPIError (JStr t) JNull), \<lparr>sent = [join_rq], logged = []\<rparr>)"
  by (simp add: join_channel_def send_def w0_def srv_failing_def api_def join_rq_def api_error_def
        check_response_def raise_for_status_def response_json_def)

lemma unknown_user:
  "cabot_user_to_slack_user_id srv_demo api auth bob w0 =
     (Inl (SlackAPIError (JStr ''users_not_found'') JNull), \<lparr>sent = [lookup_rq bob], logged = []\<rparr>)"
  by (simp add: cabot_user_to_slack_user_id_def email_to_slack_user_id_def send_def w0_def bob_def
        lookup_rq_def srv_demo_def demo_answer_def api_def api_error_def check_response_def
        raise_for_status_def response_json_def)

lemma known_user:
  "cabot_user_to_slack_user_id srv_demo api auth ann w = (Inr (JStr ''U1''), w\<lparr>sent := sent w @ [lookup_rq ann]\<rparr>)"
  by (simp add: cabot_user_to_slack_user_id_def email_to_slack_user_id_def send_def ann_def
        lookup_rq_def srv_demo_def demo_answer_def api_def ok_body_def check_response_def
        raise_for_status_def response_json_def)

lemma limited_user:
  "cabot_user_to_slack_user_id (srv_failing ''users.lookupByEmail'' (api_error ''ratelimited''))
     api auth bob w0 =
     (Inl (SlackAPIError (JStr ''ratelimited'') JNull), \<lparr>sent = [lookup_rq bob], logged = []\<rparr>)"
  by (simp add: cabot_user_to_slack_user_id_def email_to_slack_user_id_def send_def w0_def bob_def
        lookup_rq_def srv_failing_def api_def api_error_def check_response_def
        raise_for_status_def response_json_def)

text \<open>
  C6 (as amended). When the post raises a transport or an API error, \<open>send_alert\<close>
  logs it and raises the same error; and a transport or API error that leaves
  \<open>send_alert\<close> is always the one of the post. A transport or API error of the join
  is caught, and logged unless it is an API error of type
  \<^verbatim>\<open>method_not_supported_for_channel_type\<close>; an API error of a recipient's resolution
  is caught, the recipient counted as missing and the loop continued, and it is
  logged unless its type is \<^verbatim>\<open>users_not_found\<close>; a transport or API error of the
  membership reconciliation or of the image step is caught and logged.
\<close>

theorem post_failure_is_fatal:
  "(mention_policy (old_overall_status svc) (overall_status svc) = Some m \<and>
    get_slack_api_for_service svc = Inr (url, hs, ch) \<and>
    prepare srv py jenkins svc (users @ duty_officers) m url hs ch w = Some (Inr blocks, w3) \<and>
    post_message srv url hs (service_name svc @ '' is '' @ status_str (overall_status svc))
      blocks ch w3 = (Inl e, w4) \<and> caught e \<longrightarrow>
      send_alert srv py jenkins svc users duty_officers w =
        Some (Inl e, write_log (LogException ''Error posting message to Slack channel %s: %s''
                       [AStr ch, AErr e]) w4))
   \<and> (send_alert srv py jenkins svc users duty_officers w = Some (Inl e, w') \<and> caught e \<longrightarrow>
        (\<exists>c. logged w' \<noteq> [] \<and>
           last (logged w') =
             LogException ''Error posting message to Slack channel %s: %s'' [AStr c, AErr e]))
   \<and> (join_channel srv url hs ch w = (Inl e, w1) \<and> caught e \<longrightarrow>
        try_join srv url hs ch w =
          (Inr (), if error_type e = Inr (JStr ''method_not_supported_for_channel_type'') then w1
                   else write_log (LogWarning ''Could not join channel %s: %s.''
                          [AStr ch, AErr e]) w1))
   \<and> (cabot_user_to_slack_user_id srv url hs usr w = (Inl (SlackAPIError t es), w1) \<longrightarrow>
        map_users srv url hs (usr # rest) user_ids missing_users w =
          map_users srv url hs rest user_ids (missing_users @ [usr])
            (if t = JStr ''users_not_found'' then w1
             else write_log (LogException
                    ''Failed to find Slack user for Cabot user %s, got unexpected error %s.''
                    [AUser usr, AVal t]) w1))
   \<and> (ensure_channel_members srv py url hs ch user_ids w = Some (Inl e, w1) \<and> caught e \<longrightarrow>
        try_ensure_members srv py url hs ch user_ids w =
          Some (Inr (), write_log (LogException ''Failed to add users to channel %s: %s''
                          [AStr ch, AErr e]) w1))
   \<and> (upload_images srv url hs ch ts (take 5 checks) w = (Inl e, w1) \<and> caught e \<longrightarrow>
        try_upload_images srv url hs ch ts checks w =
          (Inr (), write_log (LogException ''Failed to get/upload images to channel ID %s: %s''
                     [AStr ch, AErr e]) w1))"
proof (intro conjI impI)
  assume "mention_policy (old_overall_status svc) (overall_status svc) = Some m \<and>
    get_slack_api_for_service svc = Inr (url, hs, ch) \<and>
    prepare srv py jenkins svc (users @ duty_officers) m url hs ch w = Some (Inr blocks, w3) \<and>
    post_message srv url hs (service_name svc @ '' is '' @ status_str (overall_status svc))
      blocks ch w3 = (Inl e, w4) \<and> caught e"
  then show "send_alert srv py jenkins svc users duty_officers w =
        Some (Inl e, write_log (LogException ''Error posting message to Slack channel %s: %s''
                       [AStr ch, AErr e]) w4)"
    by (simp add: send_alert_post_fails)
next
  assume "send_alert srv py jenkins svc users duty_officers w = Some (Inl e, w') \<and> caught e"
  then show "\<exists>c. logged w' \<noteq> [] \<and>
           last (logged w') =
             LogException ''Error posting message to Slack channel %s: %s'' [AStr c, AErr e]"
    using send_alert_caught_is_post by blast
next
  assume "join_channel srv url hs ch w = (Inl e, w1) \<and> caught e"
  then show "try_join srv url hs ch w =
          (Inr (), if error_type e = Inr (JStr ''method_not_supported_for_channel_type'') then w1
                   else write_log (LogWarning ''Could not join channel %s: %s.''
                          [AStr ch, AErr e]) w1)"
    using try_join_swallows by blast
next
  assume "cabot_user_to_slack_user_id srv url hs usr w = (Inl (SlackAPIError t es), w1)"
  then show "map_users srv url hs (usr # rest) user_ids missing_users w =
          map_users srv url hs rest user_ids (missing_users @ [usr])
            (if t = JStr ''users_not_found'' then w1
             else write_log (LogException
                    ''Failed to find Slack user for Cabot user %s, got unexpected error %s.''
                    [AUser usr, AVal t]) w1)"
    by (rule map_users_api_error)
next
  assume "ensure_channel_members srv py url hs ch user_ids w = Some (Inl e, w1) \<and> caught e"
  then show "try_ensure_members srv py url hs ch user_ids w =
          Some (Inr (), write_log (LogException ''Failed to add users to channel %s: %s''
                          [AStr ch, AErr e]) w1)"
    by (simp add: try_ensure_members_swallows)
next
  assume "upload_images srv url hs ch ts (take 5 checks) w = (Inl e, w1) \<and> caught e"
  then show "try_upload_images srv url hs ch ts checks w =
          (Inr (), write_log (LogException ''Failed to get/upload images to channel ID %s: %s''
                     [AStr ch, AErr e]) w1)"
    by (simp add: try_upload_images_def)
qed

theorem post_failure_is_fatal_witness:
  "send_alert (srv_failing ''chat.postMessage'' (http_failure 500)) py0 [] svc_six [] [] w0 =
     Some (Inl (HTTPError ''Server Error, response body: oops''),
       \<lparr>sent = [join_rq, post_rq svc_six blocks_six],
        logged = [LogException ''Error posting message to Slack channel %s: %s''
                    [AStr ''C456'', AErr (HTTPError ''Server Error, response body: oops'')]]\<rparr>)
   \<and> try_join (srv_failing ''conversations.join'' (api_error ''channel_not_found'')) api auth
       ''C456'' w0 =
       (Inr (), \<lparr>sent = [join_rq],
                 logged = [LogWarning ''Could not join channel %s: %s.''
                             [AStr ''C456'',
                              AErr (SlackAPIError (JStr ''channel_not_found'') JNull)]]\<rparr>)
   \<and> map_users srv_demo api auth [bob, ann] [] [] w0 =
       (Inr ([JStr ''U1''], [bob]), \<lparr>sent = [lookup_rq bob, lookup_rq ann], logged = []\<rparr>)
   \<and> map_users (srv_failing ''users.lookupByEmail'' (api_error ''ratelimited'')) api auth [bob] [] [] w0 =
       (Inr ([], [bob]),
        \<lparr>sent = [lookup_rq bob],
         logged = [LogException
                     ''Failed to find Slack user for Cabot user %s, got unexpected error %s.''
                     [AUser bob, AVal (JStr ''ratelimited'')]]\<rparr>)
   \<and> try_ensure_members (srv_failing ''conversations.members'' (http_failure 500)) py0 api auth
       ''C456'' [JStr ''U9''] w0 =
       Some (Inr (),
         \<lparr>sent = [Get (Urljoin api ''conversations.members'') auth [(''channel'', JStr ''C456'')]],
          logged = [LogException ''Failed to add users to channel %s: %s''
                      [AStr ''C456'', AErr (HTTPError ''Server Error, response body: oops'')]]\<rparr>)
   \<and> try_upload_images (srv_failing ''files.upload'' (http_failure 500)) api auth ''C456''
       (JStr ''1700000000.000100'') (all_failing_checks svc_six) posted =
       (Inr (),
        \<lparr>sent = [join_rq, post_rq svc_six blocks_six, upload_rq ''c1'' ''png1''],
         logged = [LogException ''Failed to get/upload images to channel ID %s: %s''
                     [AStr ''C456'', AErr (HTTPError ''Server Error, response body: oops'')]]\<rparr>)"
proof -
  let ?e = "HTTPError ''Server Error, response body: oops''"
  have c: "caught ?e" "caught (SlackAPIError (JStr ''channel_not_found'') JNull)"
    by (simp_all add: caught_def)
  let ?P = "srv_failing ''chat.postMessage'' (http_failure 500)"
  have 1: "send_alert ?P py0 [] svc_six [] [] w0 =
     Some (Inl ?e, write_log (LogException ''Error posting message to Slack channel %s: %s''
                       [AStr ''C456'', AErr ?e]) posted)"
    using post_failure_is_fatal [where svc = svc_six and m = True and url = api and hs = auth
        and ch = "''C456''" and srv = ?P and jenkins = "[]" and users = "[]"
        and duty_officers = "[]" and w = w0 and blocks = blocks_six
        and ?w3.0 = "\<lparr>sent = [join_rq], logged = []\<rparr>" and e = ?e and ?w4.0 = posted]
      sample_policy sample_api sample_prepare [of ?P, OF post_failing_answers(1)] failing_post c
    by simp
  have 2: "\<exists>ch. last (logged (write_log (LogException ''Error posting message to Slack channel %s: %s''
                       [AStr ''C456'', AErr ?e]) posted)) =
      LogException ''Error posting message to Slack channel %s: %s'' [AStr ch, AErr ?e]"
    using post_failure_is_fatal [where svc = svc_six and srv = ?P and jenkins = "[]"
        and users = "[]" and duty_officers = "[]" and w = w0 and e = ?e
        and w' = "write_log (LogException ''Error posting message to Slack channel %s: %s''
                       [AStr ''C456'', AErr ?e]) posted"] 1 c
    by blast
  let ?J = "srv_failing ''conversations.join'' (api_error ''channel_not_found'')"
  have 3: "try_join ?J api auth ''C456'' w0 =
       (Inr (), write_log (LogWarning ''Could not join channel %s: %s.''
          [AStr ''C456'', AErr (SlackAPIError (JStr ''channel_not_found'') JNull)])
          \<lparr>sent = [join_rq], logged = []\<rparr>)"
    using post_failure_is_fatal [where url = api and hs = auth and ch = "''C456''" and srv = ?J
        and w = w0 and e = "SlackAPIError (JStr ''channel_not_found'') JNull"
        and ?w1.0 = "\<lparr>sent = [join_rq], logged = []\<rparr>"]
      failing_join [of "''channel_not_found''"] c
    by simp
  have 4: "map_users srv_demo api auth (bob # [ann]) [] [] w0 =
       map_users srv_demo api auth [ann] [] ([] @ [bob]) \<lparr>sent = [lookup_rq bob], logged = []\<rparr>"
    using post_failure_is_fatal [where url = api and hs = auth and srv = srv_demo and w = w0
        and ?w1.0 = "\<lparr>sent = [lookup_rq bob], logged = []\<rparr>" and usr = bob
        and t = "JStr ''users_not_found''" and es = JNull and rest = "[ann]"
        and user_ids = "[]" and missing_users = "[]"]
      unknown_user
    by simp
  let ?L = "srv_failing ''users.lookupByEmail'' (api_error ''ratelimited'')"
  have 5: "map_users ?L api auth (bob # []) [] [] w0 =
       map_users ?L api auth [] [] ([] @ [bob])
         (write_log (LogException
                    ''Failed to find Slack user for Cabot user %s, got unexpected error %s.''
                    [AUser bob, AVal (JStr ''ratelimited'')]) \<lparr>sent = [lookup_rq bob], logged = []\<rparr>)"
    using post_failure_is_fatal [where url = api and hs = auth and srv = ?L and w = w0
        and ?w1.0 = "\<lparr>sent = [lookup_rq bob], logged = []\<rparr>" and usr = bob
        and t = "JStr ''ratelimited''" and es = JNull and rest = "[]"
        and user_ids = "[]" and missing_users = "[]"]
      limited_user
    by simp
  let ?M = "srv_failing ''conversations.members'' (http_failure 500)"
  let ?w1 = "\<lparr>sent = [Get (Urljoin api ''conversations.members'') auth [(''channel'', JStr ''C456'')]],
          logged = []\<rparr>"
  have "ensure_channel_members ?M py0 api auth ''C456'' [JStr ''U9''] w0 = Some (Inl ?e, ?w1)"
    using failing_listing by (simp add: ensure_channel_members_def)
  then have 6: "try_ensure_members ?M py0 api auth ''C456'' [JStr ''U9''] w0 =
       Some (Inr (), write_log (LogException ''Failed to add users to channel %s: %s''
                          [AStr ''C456'', AErr ?e]) ?w1)"
    using post_failure_is_fatal [where url = api and hs = auth and ch = "''C456''" and srv = ?M
        and w = w0 and e = ?e and ?w1.0 = ?w1 and user_ids = "[JStr ''U9'']"] c
    by simp
  let ?U = "srv_failing ''files.upload'' (http_failure 500)"
  have 7: "try_upload_images ?U api auth ''C456'' (JStr ''1700000000.000100'') (all_failing_checks svc_six)
       posted =
       (Inr (), write_log (LogException ''Failed to get/upload images to channel ID %s: %s''
                     [AStr ''C456'', AErr ?e])
          \<lparr>sent = [join_rq, post_rq svc_six blocks_six, upload_rq ''c1'' ''png1''], logged = []\<rparr>)"
    using post_failure_is_fatal [where url = api and hs = auth and ch = "''C456''" and srv = ?U
        and w = posted and e = ?e
        and ?w1.0 = "\<lparr>sent = [join_rq, post_rq svc_six blocks_six, upload_rq ''c1'' ''png1''],
                      logged = []\<rparr>"
        and ts = "JStr ''1700000000.000100''" and checks = "all_failing_checks svc_six"]
      failing_uploads c
    by simp
  have a1: "send_alert ?P py0 [] svc_six [] [] w0 =
     Some (Inl ?e,
       \<lparr>sent = [join_rq, post_rq svc_six blocks_six],
        logged = [LogException ''Error posting message to Slack channel %s: %s''
                    [AStr ''C456'', AErr ?e]]\<rparr>)"
    using 1 by (simp add: write_log_def posted_def)
  have a3: "try_join ?J api auth ''C456'' w0 =
       (Inr (), \<lparr>sent = [join_rq],
                 logged = [LogWarning ''Could not join channel %s: %s.''
                             [AStr ''C456'',
                              AErr (SlackAPIError (JStr ''channel_not_found'') JNull)]]\<rparr>)"
    using 3 by (simp add: write_log_def)
  have b4: "map_users srv_demo api auth [ann] [] ([] @ [bob]) \<lparr>sent = [lookup_rq bob], logged = []\<rparr> =
       (Inr ([JStr ''U1''], [bob]), \<lparr>sent = [lookup_rq bob, lookup_rq ann], logged = []\<rparr>)"
    by (simp add: known_user IGNORE_USER_ID_def)
  have a4: "map_users srv_demo api auth [bob, ann] [] [] w0 =
       (Inr ([JStr ''U1''], [bob]), \<lparr>sent = [lookup_rq bob, lookup_rq ann], logged = []\<rparr>)"
    using 4 unfolding b4 .
  have b5: "map_users ?L api auth [] [] ([] @ [bob])
         (write_log (LogException
                    ''Failed to find Slack user for Cabot user %s, got unexpected error %s.''
                    [AUser bob, AVal (JStr ''ratelimited'')]) \<lparr>sent = [lookup_rq bob], logged = []\<rparr>) =
       (Inr ([], [bob]),
        \<lparr>sent = [lookup_rq bob],
         logged = [LogException
                     ''Failed to find Slack user for Cabot user %s, got unexpected error %s.''
                     [AUser bob, AVal (JStr ''ratelimited'')]]\<rparr>)"
    by (simp add: write_log_def)
  have a5: "map_users ?L api auth [bob] [] [] w0 =
       (Inr ([], [bob]),
        \<lparr>sent = [lookup_rq bob],
         logged = [LogException
                     ''Failed to find Slack user for Cabot user %s, got unexpected error %s.''
                     [AUser bob, AVal (JStr ''ratelimited'')]]\<rparr>)"
    using 5 unfolding b5 .
  have a6: "try_ensure_members ?M py0 api auth ''C456'' [JStr ''U9''] w0 =
       Some (Inr (),
         \<lparr>sent = [Get (Urljoin api ''conversations.members'') auth [(''channel'', JStr ''C456'')]],
          logged = [LogException ''Failed to add users to channel %s: %s''
                      [AStr ''C456'', AErr ?e]]\<rparr>)"
    using 6 by (simp add: write_log_def)
  have a7: "try_upload_images ?U api auth ''C456'' (JStr ''1700000000.000100'') (all_failing_checks svc_six)
       posted =
       (Inr (),
        \<lparr>sent = [join_rq, post_rq svc_six blocks_six, upload_rq ''c1'' ''png1''],
         logged = [LogException ''Failed to get/upload images to channel ID %s: %s''
                     [AStr ''C456'', AErr ?e]]\<rparr>)"
    using 7 by (simp add: write_log_def)
  show ?thesis
    by (intro conjI) (fact a1 a3 a4 a5 a6 a7)+
qed

lemma silent_join_answers:
  "srv_failing ''conversations.join'' r [join_rq, post_rq svc_six blocks_six] =
     ok_body [(''ts'', JStr ''1700000000.000100'')]"
  by (simp add: srv_failing_def demo_answer_def post_rq_def)

lemma silent_join_uploads:
  "upload_images (srv_failing ''conversations.join'' r) api auth ''C456'' (JStr ''1700000000.000100'')
     (take 5 (all_failing_checks svc_six)) posted =
   (Inr (), \<lparr>sent = [join_rq, post_rq svc_six blocks_six, upload_rq ''c1'' ''png1'',
                      upload_rq ''c3'' ''png3''], logged = []\<rparr>)"
  unfolding first_five
  by (simp add: plain_check_def posted_def upload_file_def send_def srv_failing_def
        demo_answer_def upload_rq_def check_response_def raise_for_status_def ok_body_def
        response_json_def api_def)

text \<open>
  C6 as stated fails: the join raises an API error, the send completes, and nothing
  was logged.
\<close>

theorem silent_join_failure_counterexample:
  "join_channel (srv_failing ''conversations.join'' (api_error ''method_not_supported_for_channel_type''))
     api auth ''C456'' w0 =
     (Inl (SlackAPIError (JStr ''method_not_supported_for_channel_type'') JNull),
      \<lparr>sent = [join_rq], logged = []\<rparr>)
   \<and> send_alert (srv_failing ''conversations.join'' (api_error ''method_not_supported_for_channel_type'')) py0
       [] svc_six [] [] w0 =
       Some (Inr (),
         \<lparr>sent = [join_rq, post_rq svc_six blocks_six, upload_rq ''c1'' ''png1'',
                  upload_rq ''c3'' ''png3''],
          logged = []\<rparr>)"
proof
  let ?S = "srv_failing ''conversations.join'' (api_error ''method_not_supported_for_channel_type'')"
  let ?e = "SlackAPIError (JStr ''method_not_supported_for_channel_type'') JNull"
  show j: "join_channel ?S api auth ''C456'' w0 = (Inl ?e, \<lparr>sent = [join_rq], logged = []\<rparr>)"
    by (rule failing_join)
  have "caught ?e" by (simp add: caught_def)
  from try_join_swallows [OF j this]
  have "try_join ?S api auth ''C456'' w0 = (Inr (), \<lparr>sent = [join_rq], logged = []\<rparr>)"
    by simp
  then have p: "prepare ?S py0 [] svc_six ([] @ []) True api auth ''C456'' w0 =
      Some (Inr blocks_six, \<lparr>sent = [join_rq], logged = []\<rparr>)"
    by (simp add: prepare_def try_ensure_members_def ensure_channel_members_def blocks_six_def)
  have "send_alert ?S py0 [] svc_six [] [] w0 =
      Some (try_upload_images ?S api auth ''C456'' (JStr ''1700000000.000100'')
              (all_failing_checks svc_six) posted)"
    by (rule send_alert_posted [OF sample_policy sample_api p
          sample_post [of ?S, OF silent_join_answers]])
  then show "send_alert ?S py0 [] svc_six [] [] w0 =
       Some (Inr (),
         \<lparr>sent = [join_rq, post_rq svc_six blocks_six, upload_rq ''c1'' ''png1'',
                  upload_rq ''c3'' ''png3''],
          logged = []\<rparr>)"
    by (simp add: try_upload_images_def silent_join_uploads)
qed

subsection \<open>A recipient whose resolution fails with a transport error\<close>

lemma lookup_failing_answers:
  "srv_failing ''users.lookupByEmail'' r [join_rq] = ok_body []"
  by (simp add: srv_failing_def demo_answer_def join_rq_def)

lemma failing_lookup:
  "cabot_user_to_slack_user_id (srv_failing ''users.lookupByEmail'' (http_failure 500)) api auth ann
     \<lparr>sent = [join_rq], logged = []\<rparr> =
   (Inl (HTTPError ''Server Error, response body: oops''),
    \<lparr>sent = [join_rq, lookup_rq ann], logged = []\<rparr>)"
  by (simp add: cabot_user_to_slack_user_id_def email_to_slack_user_id_def send_def ann_def
        lookup_rq_def srv_failing_def http_failure_def check_response_def raise_for_status_def)

text \<open>
  C4 does not hold of the code. When the lookup of a recipient raises a transport
  error, the \<^verbatim>\<open>except\<close> clause of lines 271-275 reads \<^verbatim>\<open>e.error_type\<close>, which an
  \<^verbatim>\<open>HTTPError\<close> does not have: \<open>send_alert\<close> ends with \<^verbatim>\<open>AttributeError\<close> right after
  the failed lookup, without resolving the remaining recipients, without posting
  and without logging.
\<close>

theorem resolution_transport_error_aborts:
  assumes "mention_policy (old_overall_status svc) (overall_status svc) = Some m"
    and "get_slack_api_for_service svc = Inr (url, hs, ch)"
    and "try_join srv url hs ch w = (Inr (), w1)"
    and "cabot_user_to_slack_user_id srv url hs usr w1 = (Inl (HTTPError msg), w2)"
  shows "send_alert srv py jenkins svc (usr # users) duty_officers w =
     Some (Inl (AttributeError ''error_type''), w2)"
  using assms
  by (simp add: send_alert_def prepare_def map_users_http_error del: map_users.simps)

theorem resolution_transport_error_aborts_witness:
  "send_alert (srv_failing ''users.lookupByEmail'' (http_failure 500)) py0 [] svc_six [ann, bob] [] w0 =
     Some (Inl (AttributeError ''error_type''),
           \<lparr>sent = [join_rq, lookup_rq ann], logged = []\<rparr>)"
proof -
  let ?S = "srv_failing ''users.lookupByEmail'' (http_failure 500)"
  have j: "try_join ?S api auth ''C456'' w0 = (Inr (), \<lparr>sent = [join_rq], logged = []\<rparr>)"
    using try_join_ok [of ?S w0 api auth "''C456''"] lookup_failing_answers
    by (simp add: w0_def join_rq_def)
  show ?thesis
    by (rule resolution_transport_error_aborts [OF sample_policy sample_api j failing_lookup])
qed


end
